theory Spec2Isabelle
  imports Main "HOL-Library.Word" "HOL-Library.Char_ord" "HOL-Library.List_Lexorder"
begin

section \<open>Adapter discovery of the installer plugin (context.cpp, driverlogic.cpp)\<close>

text \<open>
  The code talks to the Windows device database through SetupAPI. Every answer of the
  operating system is data of the model: a device carries the outcome of each query the
  code can make on it, and the functions below are the code's reactions to those
  outcomes. An exception is the left injection of a sum; the plugin log and the device
  removals are an explicit state threaded through the calls.
\<close>

subsection \<open>Strings\<close>

text \<open>
  A \<open>std::wstring\<close> is a list of characters; a wide character is a character of
  HOL, which covers the ASCII names and identifiers the code compares. A \<open>wchar_t\<close>
  buffer handed to the \<open>std::wstring\<close> constructor, and every \<open>c_str()\<close> given to a C
  comparison, is read up to the first terminator.
\<close>

type_synonym wstring = string

type_synonym DWORD = "32 word"

abbreviation NUL :: char where
  "NUL \<equiv> CHR 0x00"

definition c_str :: "wstring \<Rightarrow> wstring" where
  "c_str s = takeWhile (\<lambda>c. c \<noteq> NUL) s"

text \<open>Three-way comparison of two character sequences by code unit.\<close>

fun compare_chars :: "wstring \<Rightarrow> wstring \<Rightarrow> int" where
  "compare_chars [] [] = 0"
| "compare_chars [] (y # ys) = - 1"
| "compare_chars (x # xs) [] = 1"
| "compare_chars (x # xs) (y # ys) =
     (if x = y then compare_chars xs ys
      else if (of_char x :: nat) < of_char y then - 1 else 1)"

definition wcscmp :: "wstring \<Rightarrow> wstring \<Rightarrow> int" where
  "wcscmp a b = compare_chars (c_str a) (c_str b)"

text \<open>\<open>std::wstring::compare\<close> looks at the whole strings.\<close>

definition wstring_compare :: "wstring \<Rightarrow> wstring \<Rightarrow> int" where
  "wstring_compare a b = compare_chars a b"

text \<open>\<open>_wcsicmp\<close> compares the lower-case images; in the C locale only A to Z change.\<close>

definition towlower :: "char \<Rightarrow> char" where
  "towlower c =
     (if CHR ''A'' \<le> c \<and> c \<le> CHR ''Z'' then char_of (of_char c + (32 :: nat)) else c)"

definition wcsicmp :: "wstring \<Rightarrow> wstring \<Rightarrow> int" where
  "wcsicmp a b = compare_chars (map towlower (c_str a)) (map towlower (c_str b))"

text \<open>\<open>operator<<\<close> of a stream on an \<open>int\<close> that is not negative: decimal digits.\<close>

fun decimal :: "nat \<Rightarrow> wstring" where
  "decimal n =
     (if n < 10 then [char_of (48 + n)]
      else decimal (n div 10) @ [char_of (48 + n mod 10)])"

subsection \<open>Windows error codes and exceptions\<close>

abbreviation ERROR_SUCCESS :: DWORD where
  "ERROR_SUCCESS \<equiv> 0"

abbreviation ERROR_INVALID_DATA :: DWORD where
  "ERROR_INVALID_DATA \<equiv> 13"

abbreviation ERROR_INSUFFICIENT_BUFFER :: DWORD where
  "ERROR_INSUFFICIENT_BUFFER \<equiv> 122"

abbreviation ERROR_NO_MORE_ITEMS :: DWORD where
  "ERROR_NO_MORE_ITEMS \<equiv> 259"

text \<open>
  \<open>THROW_WINDOWS_ERROR(code, operation)\<close> and \<open>THROW_ERROR(message)\<close>; the third
  constructor is an exception raised inside libcommon (GUID parsing, connection names).
\<close>

datatype error =
    WindowsError DWORD string
  | Error string
  | LibraryError string

subsection \<open>The device database\<close>

text \<open>
  The two-call protocol of a property: the sizing call returns a status, leaves a last
  error and a required size; the fill call, given the size in bytes of the buffer it may
  write, fails with a last error or writes the buffer.
\<close>

record prop_query =
  sizing_ok :: bool
  sizing_error :: DWORD
  required_size :: DWORD
  fill :: "DWORD \<Rightarrow> DWORD + wstring"

record device =
  hardwareId_prop :: prop_query
  driverDesc_prop :: prop_query
  openDevRegKey_error :: "DWORD option"
  regGetValue_status :: DWORD
  regGetValue_data :: wstring
  instanceId_required :: DWORD
  instanceId_fill :: "DWORD \<Rightarrow> DWORD + wstring"
  removeDevice_error :: "DWORD option"

text \<open>
  A device information set: \<open>SetupDiEnumDeviceInfo\<close> succeeds on the indices of
  \<open>members\<close> and fails with \<open>end_error\<close> on the first index after them.
\<close>

record devinfo =
  members :: "device list"
  end_error :: DWORD

type_synonym GUID = "128 word"

text \<open>
  C++ does not fix the order in which the arguments of a call are evaluated; the
  compiler does. The three arguments of the \<open>NetworkAdapter\<close> constructor that can
  throw are the description (\<open>name\<close>), the connection name (\<open>alias\<close>) and the device
  instance id; an order lists them as the compiled code evaluates them.
\<close>

datatype argument_order =
    name_alias_id
  | name_id_alias
  | alias_name_id
  | alias_id_name
  | id_name_alias
  | id_alias_name

text \<open>
  What libcommon and the network connection interface answer: \<open>common::Guid::FromString\<close>,
  \<open>Nci::getConnectionName\<close>, and \<open>what()\<close> of an exception; and the order of
  evaluation the compiler has chosen.
\<close>

record env =
  GuidFromString :: "wstring \<Rightarrow> error + GUID"
  getConnectionName :: "GUID \<Rightarrow> error + wstring"
  what :: "error \<Rightarrow> string"
  constructor_arguments :: argument_order

datatype log_entry =
    PluginLog wstring
  | PluginLogWithDetails wstring "wstring list"

record state =
  log :: "log_entry list"
  removed :: "device list"

definition plugin_log :: "log_entry \<Rightarrow> state \<Rightarrow> state" where
  "plugin_log entry st = st\<lparr>log := log st @ [entry]\<rparr>"

definition SetupDiEnumDeviceInfo :: "devinfo \<Rightarrow> nat \<Rightarrow> DWORD + device" where
  "SetupDiEnumDeviceInfo devInfo memberIndex =
     (if memberIndex < length (members devInfo) then Inr (members devInfo ! memberIndex)
      else Inl (end_error devInfo))"

definition SetupDiRemoveDevice :: "device \<Rightarrow> state \<Rightarrow> DWORD option \<times> state" where
  "SetupDiRemoveDevice d st =
     (case removeDevice_error d of
        Some lastError \<Rightarrow> (Some lastError, st)
      | None \<Rightarrow> (None, st\<lparr>removed := removed st @ [d]\<rparr>))"

subsection \<open>Property readers\<close>

definition buffer_bytes :: "DWORD \<Rightarrow> DWORD" where
  "buffer_bytes requiredSize = (1 + requiredSize div 2) * 2"

definition GetNetCfgInstanceId :: "device \<Rightarrow> error + wstring" where
  "GetNetCfgInstanceId d =
     (case openDevRegKey_error d of
        Some lastError \<Rightarrow> Inl (WindowsError lastError ''SetupDiOpenDevRegKey'')
      | None \<Rightarrow>
          if ERROR_SUCCESS \<noteq> regGetValue_status d
          then Inl (WindowsError (regGetValue_status d) ''RegGetValueW'')
          else Inr (c_str (regGetValue_data d)))"

definition GetDeviceInstanceId :: "device \<Rightarrow> error + wstring" where
  "GetDeviceInstanceId d =
     (case instanceId_fill d (1 + instanceId_required d * 2) of
        Inl lastError \<Rightarrow> Inl (WindowsError lastError ''SetupDiGetDeviceInstanceIdW() failed'')
      | Inr buffer \<Rightarrow> Inr (c_str buffer))"

definition GetDeviceStringProperty :: "prop_query \<Rightarrow> error + wstring" where
  "GetDeviceStringProperty q =
     (if \<not> sizing_ok q \<and> ERROR_INSUFFICIENT_BUFFER \<noteq> sizing_error q
      then Inl (WindowsError (sizing_error q) ''SetupDiGetDevicePropertyW'')
      else
        (case fill q (buffer_bytes (required_size q)) of
           Inl lastError \<Rightarrow> Inl (WindowsError lastError ''Failed to read device property'')
         | Inr buffer \<Rightarrow> Inr (c_str buffer)))"

definition GetDeviceRegistryStringProperty :: "prop_query \<Rightarrow> error + wstring option" where
  "GetDeviceRegistryStringProperty q =
     (if \<not> sizing_ok q \<and> ERROR_INSUFFICIENT_BUFFER \<noteq> sizing_error q
      then
        (if ERROR_INVALID_DATA \<noteq> sizing_error q
         then Inl (WindowsError (sizing_error q) ''SetupDiGetDeviceRegistryPropertyW'')
         else Inr None)
      else
        (case fill q (buffer_bytes (required_size q)) of
           Inl lastError \<Rightarrow> Inl (WindowsError lastError ''Failed to read device property'')
         | Inr buffer \<Rightarrow> Inr (Some (c_str buffer))))"

subsection \<open>Adapters and the set of adapters\<close>

record NetworkAdapter =
  guid :: wstring
  name :: wstring
  aliasName :: wstring
  deviceInstanceId :: wstring

text \<open>
  Modelled from the spec: \<open>operator<\<close> of \<open>Context::NetworkAdapter\<close> is declared in
  context.h, which is not part of the sources at hand. The specification orders adapter
  records by their identifying string, so the comparison is the one of the \<open>guid\<close>
  fields.
\<close>

definition adapter_less :: "NetworkAdapter \<Rightarrow> NetworkAdapter \<Rightarrow> bool" where
  "adapter_less a b = (guid a < guid b)"

text \<open>
  A \<open>std::set\<close> is the list of its elements in iteration order. \<open>emplace\<close> leaves the
  set as it is when an equivalent element is present.
\<close>

fun set_emplace :: "NetworkAdapter \<Rightarrow> NetworkAdapter list \<Rightarrow> NetworkAdapter list" where
  "set_emplace a [] = [a]"
| "set_emplace a (x # xs) =
     (if adapter_less a x then a # x # xs
      else if adapter_less x a then x # set_emplace a xs
      else x # xs)"

subsection \<open>Enumeration: \<open>GetTapAdapters\<close>\<close>

text \<open>
  Two evaluations one after the other: the second is not reached when the first throws.
\<close>

definition in_sequence :: "error + 'a \<Rightarrow> error + 'b \<Rightarrow> error + 'a \<times> 'b" where
  "in_sequence x y =
     (case x of
        Inl ex \<Rightarrow> Inl ex
      | Inr a \<Rightarrow> (case y of Inl ex \<Rightarrow> Inl ex | Inr b \<Rightarrow> Inr (a, b)))"

text \<open>
  The three arguments of the constructor in the order of the compiled code; the values
  come back as description, connection name, device instance id.
\<close>

fun evaluate_arguments ::
  "argument_order \<Rightarrow> error + wstring \<Rightarrow> error + wstring \<Rightarrow> error + wstring
     \<Rightarrow> error + wstring \<times> wstring \<times> wstring" where
  "evaluate_arguments name_alias_id n a i = in_sequence n (in_sequence a i)"
| "evaluate_arguments name_id_alias n a i =
     map_sum id (\<lambda>(n', i', a'). (n', a', i')) (in_sequence n (in_sequence i a))"
| "evaluate_arguments alias_name_id n a i =
     map_sum id (\<lambda>(a', n', i'). (n', a', i')) (in_sequence a (in_sequence n i))"
| "evaluate_arguments alias_id_name n a i =
     map_sum id (\<lambda>(a', i', n'). (n', a', i')) (in_sequence a (in_sequence i n))"
| "evaluate_arguments id_name_alias n a i =
     map_sum id (\<lambda>(i', n', a'). (n', a', i')) (in_sequence i (in_sequence n a))"
| "evaluate_arguments id_alias_name n a i =
     map_sum id (\<lambda>(i', a', n'). (n', a', i')) (in_sequence i (in_sequence a n))"

text \<open>
  The body of the \<open>try\<close> block: the two statements that read and parse the identity,
  then the arguments of the constructor in the order of the compiled code, which
  decides whose exception is caught when several of them throw.
\<close>

definition construct_adapter :: "env \<Rightarrow> device \<Rightarrow> error + NetworkAdapter" where
  "construct_adapter e d =
     (case GetNetCfgInstanceId d of
        Inl ex \<Rightarrow> Inl ex
      | Inr g \<Rightarrow>
          (case GuidFromString e g of
             Inl ex \<Rightarrow> Inl ex
           | Inr guidObj \<Rightarrow>
               (case evaluate_arguments (constructor_arguments e)
                       (GetDeviceStringProperty (driverDesc_prop d))
                       (getConnectionName e guidObj)
                       (GetDeviceInstanceId d) of
                  Inl ex \<Rightarrow> Inl ex
                | Inr (desc, conn, inst) \<Rightarrow>
                    Inr \<lparr>guid = g, name = desc, aliasName = conn,
                         deviceInstanceId = inst\<rparr>)))"

definition skip_message :: "env \<Rightarrow> error \<Rightarrow> log_entry" where
  "skip_message e ex =
     PluginLog (''Skipping TAP adapter due to exception caught while iterating: '' @ what e ex)"

text \<open>
  The \<open>for\<close> loop over \<open>memberIndex\<close>, with the set built so far and the state. It ends
  when \<open>SetupDiEnumDeviceInfo\<close> fails, which it does at the latest after the last member.
\<close>

function GetTapAdapters_loop ::
  "env \<Rightarrow> wstring \<Rightarrow> devinfo \<Rightarrow> nat \<Rightarrow> NetworkAdapter list \<Rightarrow> state
     \<Rightarrow> (error + NetworkAdapter list) \<times> state" where
  "GetTapAdapters_loop e tapHardwareId devInfo memberIndex adapters st =
     (case SetupDiEnumDeviceInfo devInfo memberIndex of
        Inl lastError \<Rightarrow>
          if ERROR_NO_MORE_ITEMS = lastError then (Inr adapters, st)
          else (Inl (WindowsError lastError
                  ''SetupDiEnumDeviceInfo() failed while enumerating network adapters''), st)
      | Inr devInfoData \<Rightarrow>
          (case GetDeviceRegistryStringProperty (hardwareId_prop devInfoData) of
             Inl ex \<Rightarrow> (Inl ex, st)
           | Inr None \<Rightarrow>
               GetTapAdapters_loop e tapHardwareId devInfo (Suc memberIndex) adapters st
           | Inr (Some hardwareId) \<Rightarrow>
               if wcscmp hardwareId tapHardwareId \<noteq> 0
               then GetTapAdapters_loop e tapHardwareId devInfo (Suc memberIndex) adapters st
               else
                 (case construct_adapter e devInfoData of
                    Inr a \<Rightarrow>
                      GetTapAdapters_loop e tapHardwareId devInfo (Suc memberIndex)
                        (set_emplace a adapters) st
                  | Inl ex \<Rightarrow>
                      GetTapAdapters_loop e tapHardwareId devInfo (Suc memberIndex)
                        adapters (plugin_log (skip_message e ex) st))))"
  by pat_completeness auto
termination
  by (relation "measure (\<lambda>(e, h, devInfo, i, a, st). length (members devInfo) - i)")
     (auto simp: SetupDiEnumDeviceInfo_def split: if_splits)

declare GetTapAdapters_loop.simps [simp del]

definition GetTapAdapters ::
  "env \<Rightarrow> DWORD + devinfo \<Rightarrow> wstring \<Rightarrow> state \<Rightarrow> (error + NetworkAdapter list) \<times> state" where
  "GetTapAdapters e classDevs tapHardwareId st =
     (case classDevs of
        Inl lastError \<Rightarrow> (Inl (WindowsError lastError ''SetupDiGetClassDevs() failed''), st)
      | Inr devInfo \<Rightarrow> GetTapAdapters_loop e tapHardwareId devInfo 0 [] st)"

subsection \<open>The adapter matcher: \<open>Context::FindMullvadAdapter\<close>\<close>

definition findByAlias :: "NetworkAdapter list \<Rightarrow> wstring \<Rightarrow> NetworkAdapter option" where
  "findByAlias adapters a = find (\<lambda>candidate. 0 = wcsicmp (aliasName candidate) a) adapters"

definition baseAlias :: wstring where
  "baseAlias = ''Mullvad''"

function probe_suffixes :: "NetworkAdapter list \<Rightarrow> nat \<Rightarrow> NetworkAdapter option" where
  "probe_suffixes tapAdapters i =
     (if i < 10 then
        (case findByAlias tapAdapters (baseAlias @ ''-'' @ decimal i) of
           Some mullvadAdapter \<Rightarrow> Some mullvadAdapter
         | None \<Rightarrow> probe_suffixes tapAdapters (Suc i))
      else None)"
  by pat_completeness auto
termination
  by (relation "measure (\<lambda>(t, i). 10 - i)") auto

definition FindMullvadAdapter :: "NetworkAdapter list \<Rightarrow> NetworkAdapter option" where
  "FindMullvadAdapter tapAdapters =
     (if tapAdapters = [] then None
      else
        (case findByAlias tapAdapters baseAlias of
           Some mullvadAdapter \<Rightarrow> Some mullvadAdapter
         | None \<Rightarrow> probe_suffixes tapAdapters 0))"

subsection \<open>The lifecycle operations: \<open>Context::getAdapter\<close>, \<open>Context::DeleteOldMullvadAdapter\<close>\<close>

definition TAP_HARDWARE_ID :: wstring where
  "TAP_HARDWARE_ID = ''tapmullvad0901''"

definition DEPRECATED_TAP_HARDWARE_ID :: wstring where
  "DEPRECATED_TAP_HARDWARE_ID = ''tap0901''"

definition adapter_details :: "NetworkAdapter \<Rightarrow> wstring list" where
  "adapter_details adapter =
     [''Adapter'',
      ''    Guid: '' @ guid adapter,
      ''    Name: '' @ name adapter,
      ''    Alias: '' @ aliasName adapter]"

definition LogAdapters :: "wstring \<Rightarrow> NetworkAdapter list \<Rightarrow> state \<Rightarrow> state" where
  "LogAdapters description adapters st =
     plugin_log (PluginLogWithDetails description (concat (map adapter_details adapters))) st"

text \<open>
  What a call can end in: a value, an exception, or undefined behaviour of the C++
  program (here: dereferencing the \<open>end()\<close> iterator of a set).
\<close>

datatype 'a outcome = Returns 'a | Throws error | UndefinedBehaviour

definition deref_begin :: "'a list \<Rightarrow> 'a outcome" where
  "deref_begin xs = (case xs of [] \<Rightarrow> UndefinedBehaviour | x # _ \<Rightarrow> Returns x)"

definition getAdapter ::
  "env \<Rightarrow> DWORD + devinfo \<Rightarrow> state \<Rightarrow> NetworkAdapter outcome \<times> state" where
  "getAdapter e classDevs st =
     (case GetTapAdapters e classDevs TAP_HARDWARE_ID st of
        (Inl ex, st1) \<Rightarrow> (Throws ex, st1)
      | (Inr added, st1) \<Rightarrow>
          if length added > 1
          then (Throws (Error ''Identified more TAP adapters than expected''),
                LogAdapters ''Enumerable network TAP adapters'' added st1)
          else (deref_begin added, st1))"

datatype DeletionResult = NO_REMAINING_TAP_ADAPTERS | SOME_REMAINING_TAP_ADAPTERS

text \<open>The second loop of \<open>DeleteOldMullvadAdapter\<close>, with the counter and the state.\<close>

function DeleteOldMullvadAdapter_loop ::
  "wstring \<Rightarrow> devinfo \<Rightarrow> nat \<Rightarrow> int \<Rightarrow> state \<Rightarrow> (error + int) \<times> state" where
  "DeleteOldMullvadAdapter_loop mullvadGuid devInfo memberIndex numRemainingAdapters st =
     (case SetupDiEnumDeviceInfo devInfo memberIndex of
        Inl lastError \<Rightarrow>
          if ERROR_NO_MORE_ITEMS = lastError then (Inr numRemainingAdapters, st)
          else (Inl (WindowsError lastError ''Error enumerating network adapters''), st)
      | Inr devInfoData \<Rightarrow>
          (case GetDeviceRegistryStringProperty (hardwareId_prop devInfoData) of
             Inl ex \<Rightarrow> (Inl ex, st)
           | Inr None \<Rightarrow>
               DeleteOldMullvadAdapter_loop mullvadGuid devInfo (Suc memberIndex)
                 numRemainingAdapters st
           | Inr (Some hardwareId) \<Rightarrow>
               if wcscmp DEPRECATED_TAP_HARDWARE_ID hardwareId = 0
               then
                 (case GetNetCfgInstanceId devInfoData of
                    Inl ex \<Rightarrow> (Inl ex, st)
                  | Inr instanceId \<Rightarrow>
                      if 0 \<noteq> wstring_compare instanceId mullvadGuid
                      then DeleteOldMullvadAdapter_loop mullvadGuid devInfo (Suc memberIndex)
                             (numRemainingAdapters + 1) st
                      else
                        (case SetupDiRemoveDevice devInfoData st of
                           (Some lastError, st') \<Rightarrow>
                             (Inl (WindowsError lastError ''Error removing Mullvad TAP device''),
                              st')
                         | (None, st') \<Rightarrow>
                             DeleteOldMullvadAdapter_loop mullvadGuid devInfo (Suc memberIndex)
                               numRemainingAdapters st'))
               else DeleteOldMullvadAdapter_loop mullvadGuid devInfo (Suc memberIndex)
                      numRemainingAdapters st))"
  by pat_completeness auto
termination
  by (relation "measure (\<lambda>(g, devInfo, i, n, st). length (members devInfo) - i)")
     (auto simp: SetupDiEnumDeviceInfo_def split: if_splits)

declare DeleteOldMullvadAdapter_loop.simps [simp del]

text \<open>
  \<open>DeleteOldMullvadAdapter\<close> asks for the device list twice: \<open>classDevs\<close> answers the
  call inside \<open>GetTapAdapters\<close>, \<open>classDevs'\<close> the call that precedes the removal loop.
\<close>

definition DeleteOldMullvadAdapter ::
  "env \<Rightarrow> DWORD + devinfo \<Rightarrow> DWORD + devinfo \<Rightarrow> state
     \<Rightarrow> (error + DeletionResult) \<times> state" where
  "DeleteOldMullvadAdapter e classDevs classDevs' st =
     (case GetTapAdapters e classDevs DEPRECATED_TAP_HARDWARE_ID st of
        (Inl ex, st1) \<Rightarrow> (Inl ex, st1)
      | (Inr tapAdapters, st1) \<Rightarrow>
          (case FindMullvadAdapter tapAdapters of
             None \<Rightarrow> (Inl (Error ''Mullvad TAP adapter not found''), st1)
           | Some mullvadAdapter \<Rightarrow>
               (case classDevs' of
                  Inl lastError \<Rightarrow>
                    (Inl (WindowsError lastError ''SetupDiGetClassDevs() failed''), st1)
                | Inr devInfo \<Rightarrow>
                    (case DeleteOldMullvadAdapter_loop (guid mullvadAdapter) devInfo 0 0 st1 of
                       (Inl ex, st2) \<Rightarrow> (Inl ex, st2)
                     | (Inr numRemainingAdapters, st2) \<Rightarrow>
                         (Inr (if numRemainingAdapters > 0 then SOME_REMAINING_TAP_ADAPTERS
                               else NO_REMAINING_TAP_ADAPTERS), st2)))))"

subsection \<open>The exported operations (driverlogic.cpp)\<close>

datatype Context = Context

datatype NsisStatus = NsisStatus_GENERAL_ERROR | NsisStatus_SUCCESS

datatype RemoveOldMullvadTapStatus =
    GENERAL_ERROR
  | SUCCESS_NO_REMAINING_TAP_ADAPTERS
  | SUCCESS_SOME_REMAINING_TAP_ADAPTERS

fun RemoveOldMullvadTapStatus_value :: "RemoveOldMullvadTapStatus \<Rightarrow> int" where
  "RemoveOldMullvadTapStatus_value GENERAL_ERROR = 0"
| "RemoveOldMullvadTapStatus_value SUCCESS_NO_REMAINING_TAP_ADAPTERS = 1"
| "RemoveOldMullvadTapStatus_value SUCCESS_SOME_REMAINING_TAP_ADAPTERS = 2"

datatype stack_item =
    StackString wstring
  | StackNsisStatus NsisStatus
  | StackRemoveStatus RemoveOldMullvadTapStatus

text \<open>
  The plugin during a call: the global \<open>g_context\<close> (\<open>None\<close> is \<open>nullptr\<close>), the
  references to the module that the plugin itself holds (\<open>PinDll\<close> adds them with
  \<open>LoadLibraryW\<close>), the NSIS stack with its top first, and the log and removals of the
  session.
\<close>

record plugin =
  g_context :: "Context option"
  references :: nat
  stack :: "stack_item list"
  session :: state

definition pushstring :: "wstring \<Rightarrow> plugin \<Rightarrow> plugin" where
  "pushstring s p = p\<lparr>stack := StackString s # stack p\<rparr>"

definition pushint :: "stack_item \<Rightarrow> plugin \<Rightarrow> plugin" where
  "pushint v p = p\<lparr>stack := v # stack p\<rparr>"

text \<open>
  \<open>PinDll\<close>, given what \<open>GetModuleFileNameW\<close> returns: it throws before the first
  \<open>LoadLibraryW\<close>, or loads the module a hundred times more.
\<close>

definition PinDll :: "DWORD \<Rightarrow> plugin \<Rightarrow> error + plugin" where
  "PinDll moduleFileNameLength p =
     (if 0 = moduleFileNameLength then Inl (Error ''Failed to pin plugin module'')
      else Inr (p\<lparr>references := references p + 100\<rparr>))"

definition Initialize :: "env \<Rightarrow> DWORD \<Rightarrow> plugin \<Rightarrow> plugin" where
  "Initialize e moduleFileNameLength p =
     (if g_context p = None then
        (let p1 = p\<lparr>g_context := Some Context\<rparr> in
         case PinDll moduleFileNameLength p1 of
           Inl err \<Rightarrow> pushint (StackNsisStatus NsisStatus_GENERAL_ERROR) (pushstring (what e err) p1)
         | Inr p2 \<Rightarrow> pushint (StackNsisStatus NsisStatus_SUCCESS) (pushstring [] p2))
      else pushint (StackNsisStatus NsisStatus_SUCCESS) (pushstring [] p))"

definition RemoveOldMullvadTap ::
  "env \<Rightarrow> DWORD + devinfo \<Rightarrow> DWORD + devinfo \<Rightarrow> plugin \<Rightarrow> plugin" where
  "RemoveOldMullvadTap e classDevs classDevs' p =
     (let p1 = pushstring [] p in
      case DeleteOldMullvadAdapter e classDevs classDevs' (session p1) of
        (Inr NO_REMAINING_TAP_ADAPTERS, st) \<Rightarrow>
          pushint (StackRemoveStatus SUCCESS_NO_REMAINING_TAP_ADAPTERS) (p1\<lparr>session := st\<rparr>)
      | (Inr SOME_REMAINING_TAP_ADAPTERS, st) \<Rightarrow>
          pushint (StackRemoveStatus SUCCESS_SOME_REMAINING_TAP_ADAPTERS) (p1\<lparr>session := st\<rparr>)
      | (Inl err, st) \<Rightarrow>
          pushint (StackRemoveStatus GENERAL_ERROR)
            (pushstring (what e err) (p1\<lparr>session := st\<rparr>)))"

definition IdentifyNewAdapter :: "env \<Rightarrow> DWORD + devinfo \<Rightarrow> plugin \<Rightarrow> plugin outcome" where
  "IdentifyNewAdapter e classDevs p =
     (if g_context p = None then
        Returns (pushint (StackNsisStatus NsisStatus_GENERAL_ERROR)
          (pushstring ''Initialize() function was not called or was not successful'' p))
      else
        (case getAdapter e classDevs (session p) of
           (Returns adapter, st) \<Rightarrow>
             Returns (pushint (StackNsisStatus NsisStatus_SUCCESS)
               (pushstring (aliasName adapter) (p\<lparr>session := st\<rparr>)))
         | (Throws err, st) \<Rightarrow>
             Returns (pushint (StackNsisStatus NsisStatus_GENERAL_ERROR)
               (pushstring (what e err) (p\<lparr>session := st\<rparr>)))
         | (UndefinedBehaviour, st) \<Rightarrow> UndefinedBehaviour))"

definition Deinitialize :: "plugin \<Rightarrow> plugin" where
  "Deinitialize p =
     (pushint (StackNsisStatus NsisStatus_SUCCESS) (pushstring [] p))\<lparr>g_context := None\<rparr>"

text \<open>
  NSIS loads the plugin module for a call and frees it when the call returns (the
  comment in \<open>PinDll\<close>). Unless the plugin holds references of its own, the module is
  then unloaded, and the next call runs in a newly loaded module, whose \<open>g_context\<close>
  is \<open>nullptr\<close> again. The stack belongs to NSIS, the log and the devices to the
  system: they stay.
\<close>

definition FreeLibrary :: "plugin \<Rightarrow> plugin" where
  "FreeLibrary p = (if references p = 0 then p\<lparr>g_context := None\<rparr> else p)"

datatype nsis_call =
    Call_Initialize DWORD
  | Call_RemoveOldMullvadTap "DWORD + devinfo" "DWORD + devinfo"
  | Call_IdentifyNewAdapter "DWORD + devinfo"
  | Call_Deinitialize

fun call_plugin :: "env \<Rightarrow> nsis_call \<Rightarrow> plugin \<Rightarrow> plugin outcome" where
  "call_plugin e (Call_Initialize moduleFileNameLength) p =
     Returns (FreeLibrary (Initialize e moduleFileNameLength p))"
| "call_plugin e (Call_RemoveOldMullvadTap classDevs classDevs') p =
     Returns (FreeLibrary (RemoveOldMullvadTap e classDevs classDevs' p))"
| "call_plugin e (Call_IdentifyNewAdapter classDevs) p =
     (case IdentifyNewAdapter e classDevs p of
        Returns p' \<Rightarrow> Returns (FreeLibrary p')
      | Throws ex \<Rightarrow> Throws ex
      | UndefinedBehaviour \<Rightarrow> UndefinedBehaviour)"
| "call_plugin e Call_Deinitialize p = Returns (FreeLibrary (Deinitialize p))"

subsection \<open>The loops, one member at a time\<close>

text \<open>
  For the proofs, each loop is also read as a recursion over the members that are still
  to be visited; \<open>GetTapAdapters_loop_members\<close> and
  \<open>DeleteOldMullvadAdapter_loop_members\<close> below show that nothing is lost.
\<close>

definition tap_step ::
  "env \<Rightarrow> wstring \<Rightarrow> device \<Rightarrow> NetworkAdapter list \<Rightarrow> state
     \<Rightarrow> (error + NetworkAdapter list) \<times> state" where
  "tap_step e tapHardwareId d adapters st =
     (case GetDeviceRegistryStringProperty (hardwareId_prop d) of
        Inl ex \<Rightarrow> (Inl ex, st)
      | Inr None \<Rightarrow> (Inr adapters, st)
      | Inr (Some hardwareId) \<Rightarrow>
          if wcscmp hardwareId tapHardwareId \<noteq> 0 then (Inr adapters, st)
          else
            (case construct_adapter e d of
               Inr a \<Rightarrow> (Inr (set_emplace a adapters), st)
             | Inl ex \<Rightarrow> (Inr adapters, plugin_log (skip_message e ex) st)))"

fun enumerate_members ::
  "env \<Rightarrow> wstring \<Rightarrow> DWORD \<Rightarrow> device list \<Rightarrow> NetworkAdapter list \<Rightarrow> state
     \<Rightarrow> (error + NetworkAdapter list) \<times> state" where
  "enumerate_members e h lastError [] adapters st =
     (if ERROR_NO_MORE_ITEMS = lastError then (Inr adapters, st)
      else (Inl (WindowsError lastError
              ''SetupDiEnumDeviceInfo() failed while enumerating network adapters''), st))"
| "enumerate_members e h lastError (d # ds) adapters st =
     (case tap_step e h d adapters st of
        (Inl ex, st') \<Rightarrow> (Inl ex, st')
      | (Inr adapters', st') \<Rightarrow> enumerate_members e h lastError ds adapters' st')"

definition delete_step ::
  "wstring \<Rightarrow> device \<Rightarrow> int \<Rightarrow> state \<Rightarrow> (error + int) \<times> state" where
  "delete_step mullvadGuid d n st =
     (case GetDeviceRegistryStringProperty (hardwareId_prop d) of
        Inl ex \<Rightarrow> (Inl ex, st)
      | Inr None \<Rightarrow> (Inr n, st)
      | Inr (Some hardwareId) \<Rightarrow>
          if wcscmp DEPRECATED_TAP_HARDWARE_ID hardwareId = 0
          then
            (case GetNetCfgInstanceId d of
               Inl ex \<Rightarrow> (Inl ex, st)
             | Inr instanceId \<Rightarrow>
                 if 0 \<noteq> wstring_compare instanceId mullvadGuid then (Inr (n + 1), st)
                 else
                   (case SetupDiRemoveDevice d st of
                      (Some lastError, st') \<Rightarrow>
                        (Inl (WindowsError lastError ''Error removing Mullvad TAP device''), st')
                    | (None, st') \<Rightarrow> (Inr n, st')))
          else (Inr n, st))"

fun remove_members ::
  "wstring \<Rightarrow> DWORD \<Rightarrow> device list \<Rightarrow> int \<Rightarrow> state \<Rightarrow> (error + int) \<times> state" where
  "remove_members g lastError [] n st =
     (if ERROR_NO_MORE_ITEMS = lastError then (Inr n, st)
      else (Inl (WindowsError lastError ''Error enumerating network adapters''), st))"
| "remove_members g lastError (d # ds) n st =
     (case delete_step g d n st of
        (Inl ex, st') \<Rightarrow> (Inl ex, st')
      | (Inr n', st') \<Rightarrow> remove_members g lastError ds n' st')"

subsection \<open>Vocabulary of the specification\<close>

text \<open>Two names are equal case-insensitively.\<close>

definition equals_ignoring_case :: "wstring \<Rightarrow> wstring \<Rightarrow> bool" where
  "equals_ignoring_case a b = (map towlower (c_str a) = map towlower (c_str b))"

text \<open>The eleven names the matcher looks for, in the order of their priority.\<close>

definition candidate_aliases :: "wstring list" where
  "candidate_aliases =
     [''Mullvad'', ''Mullvad-0'', ''Mullvad-1'', ''Mullvad-2'', ''Mullvad-3'', ''Mullvad-4'',
      ''Mullvad-5'', ''Mullvad-6'', ''Mullvad-7'', ''Mullvad-8'', ''Mullvad-9'']"

text \<open>A device carries the legacy hardware ID.\<close>

definition carries_legacy_id :: "device \<Rightarrow> bool" where
  "carries_legacy_id d =
     (GetDeviceRegistryStringProperty (hardwareId_prop d)
        = Inr (Some DEPRECATED_TAP_HARDWARE_ID))"

text \<open>
  A legacy device whose configuration identity is, or is not, the identity of the
  matched adapter.
\<close>

definition is_target :: "wstring \<Rightarrow> device \<Rightarrow> bool" where
  "is_target g d = (carries_legacy_id d \<and> GetNetCfgInstanceId d = Inr g)"

definition is_sibling :: "wstring \<Rightarrow> device \<Rightarrow> bool" where
  "is_sibling g d = (carries_legacy_id d \<and> GetNetCfgInstanceId d \<noteq> Inr g)"

text \<open>The hardware-ID property of a device is absent, or differs from the requested one.\<close>

definition not_requested :: "wstring \<Rightarrow> device \<Rightarrow> bool" where
  "not_requested tapHardwareId d =
     (case GetDeviceRegistryStringProperty (hardwareId_prop d) of
        Inl ex \<Rightarrow> False
      | Inr None \<Rightarrow> True
      | Inr (Some hardwareId) \<Rightarrow> hardwareId \<noteq> c_str tapHardwareId)"

text \<open>The module as NSIS loads it when the plugin holds no reference to it.\<close>

definition newly_loaded :: "plugin \<Rightarrow> bool" where
  "newly_loaded p = (g_context p = None \<and> references p = 0)"

text \<open>The status on top of the stack is the success of \<open>NsisStatus\<close>.\<close>

definition reports_success :: "plugin \<Rightarrow> bool" where
  "reports_success p =
     (case stack p of StackNsisStatus NsisStatus_SUCCESS # rest \<Rightarrow> True | _ \<Rightarrow> False)"

definition is_Initialize :: "nsis_call \<Rightarrow> bool" where
  "is_Initialize c = (case c of Call_Initialize n \<Rightarrow> True | _ \<Rightarrow> False)"

text \<open>
  A run of calls none of which is an \<open>Initialize\<close> that reports success: the plugin
  after the run, or \<open>None\<close> when the run holds a successful \<open>Initialize\<close> or does not
  return.
\<close>

fun calls_before_success :: "env \<Rightarrow> nsis_call list \<Rightarrow> plugin \<Rightarrow> plugin option" where
  "calls_before_success e [] p = Some p"
| "calls_before_success e (c # cs) p =
     (case call_plugin e c p of
        Returns p' \<Rightarrow>
          if is_Initialize c \<and> reports_success p' then None
          else calls_before_success e cs p'
      | Throws ex \<Rightarrow> None
      | UndefinedBehaviour \<Rightarrow> None)"

text \<open>
  The entries that the enumeration for a hardware ID is to log for a device: one entry
  with the exception when the device has that hardware ID and no record can be built
  from it, none otherwise.
\<close>

definition skipped_log :: "env \<Rightarrow> wstring \<Rightarrow> device \<Rightarrow> log_entry list" where
  "skipped_log e tapHardwareId d =
     (if GetDeviceRegistryStringProperty (hardwareId_prop d) = Inr (Some (c_str tapHardwareId))
      then
        (case construct_adapter e d of
           Inl ex \<Rightarrow>
             [PluginLog (''Skipping TAP adapter due to exception caught while iterating: ''
                @ what e ex)]
         | Inr r \<Rightarrow> [])
      else [])"

text \<open>All four fields of a record were read from a device.\<close>

definition fields_obtained :: "env \<Rightarrow> device \<Rightarrow> NetworkAdapter \<Rightarrow> bool" where
  "fields_obtained e d r =
     (GetNetCfgInstanceId d = Inr (guid r) \<and>
      GetDeviceStringProperty (driverDesc_prop d) = Inr (name r) \<and>
      (case GuidFromString e (guid r) of
         Inl ex \<Rightarrow> False
       | Inr guidObj \<Rightarrow> getConnectionName e guidObj = Inr (aliasName r)) \<and>
      GetDeviceInstanceId d = Inr (deviceInstanceId r))"

subsection \<open>A small device database for the examples\<close>

definition present_query :: "wstring \<Rightarrow> prop_query" where
  "present_query s =
     \<lparr>sizing_ok = False, sizing_error = ERROR_INSUFFICIENT_BUFFER,
      required_size = 2 * of_nat (length s + 1), fill = (\<lambda>n. Inr (s @ [NUL]))\<rparr>"

definition absent_query :: prop_query where
  "absent_query =
     \<lparr>sizing_ok = False, sizing_error = ERROR_INVALID_DATA, required_size = 0,
      fill = (\<lambda>n. Inl ERROR_INVALID_DATA)\<rparr>"

definition denied_query :: prop_query where
  "denied_query =
     \<lparr>sizing_ok = False, sizing_error = 5, required_size = 0, fill = (\<lambda>n. Inr [])\<rparr>"

definition unreadable_query :: prop_query where
  "unreadable_query =
     \<lparr>sizing_ok = False, sizing_error = ERROR_INSUFFICIENT_BUFFER, required_size = 16,
      fill = (\<lambda>n. Inl 5)\<rparr>"

definition test_device :: "wstring \<Rightarrow> wstring \<Rightarrow> device" where
  "test_device h g =
     \<lparr>hardwareId_prop = present_query h, driverDesc_prop = present_query ''TAP Adapter'',
      openDevRegKey_error = None, regGetValue_status = ERROR_SUCCESS,
      regGetValue_data = g @ [NUL], instanceId_required = 20,
      instanceId_fill = (\<lambda>n. Inr (''ROOT/NET/'' @ g @ [NUL])), removeDevice_error = None\<rparr>"

text \<open>
  GUID strings of the examples are single letters; the connection names belong to the
  letters A to D, and the letter E has no connection.
\<close>

definition test_env :: env where
  "test_env =
     \<lparr>GuidFromString =
        (\<lambda>s. case s of [] \<Rightarrow> Inl (LibraryError ''Invalid GUID'')
                      | c # _ \<Rightarrow> Inr (of_nat (of_char c))),
      getConnectionName =
        (\<lambda>g. if g = 0x41 then Inr ''Mullvad-2''
              else if g = 0x42 then Inr ''Other''
              else if g = 0x43 then Inr ''Mullvad-1''
              else if g = 0x44 then Inr ''MULLVAD''
              else Inl (LibraryError ''No connection'')),
      what = (\<lambda>ex. case ex of WindowsError c m \<Rightarrow> m | Error m \<Rightarrow> m | LibraryError m \<Rightarrow> m),
      constructor_arguments = id_alias_name\<rparr>"

definition test_devinfo :: "device list \<Rightarrow> devinfo" where
  "test_devinfo ds = \<lparr>members = ds, end_error = ERROR_NO_MORE_ITEMS\<rparr>"

definition test_adapter :: "wstring \<Rightarrow> wstring \<Rightarrow> NetworkAdapter" where
  "test_adapter g a =
     \<lparr>guid = g, name = ''TAP Adapter'', aliasName = a, deviceInstanceId = ''ROOT/NET/'' @ g\<rparr>"

definition empty_state :: state where
  "empty_state = \<lparr>log = [], removed = []\<rparr>"

definition fresh_plugin :: plugin where
  "fresh_plugin = \<lparr>g_context = None, references = 0, stack = [], session = empty_state\<rparr>"

text \<open>A device whose description and device instance id can both not be read.\<close>

definition broken_device :: device where
  "broken_device =
     (test_device TAP_HARDWARE_ID ''B'')
       \<lparr>driverDesc_prop := unreadable_query, instanceId_fill := (\<lambda>n. Inl 5)\<rparr>"

definition three_adapters :: "NetworkAdapter list" where
  "three_adapters =
     [test_adapter ''A'' ''Mullvad-2'', test_adapter ''B'' ''Other'',
      test_adapter ''C'' ''Mullvad-1'']"

definition failing_removal :: "device \<Rightarrow> device" where
  "failing_removal d = d\<lparr>removeDevice_error := Some 5\<rparr>"

definition absent_device :: device where
  "absent_device = (test_device [] ''A'')\<lparr>hardwareId_prop := absent_query\<rparr>"

section \<open>Properties\<close>

subsection \<open>Strings\<close>

lemma compare_chars_eq_0: "compare_chars a b = 0 \<longleftrightarrow> a = b"
  by (induction a b rule: compare_chars.induct) auto

lemma wcscmp_eq_0: "wcscmp a b = 0 \<longleftrightarrow> c_str a = c_str b"
  by (simp add: wcscmp_def compare_chars_eq_0)

lemma wcsicmp_eq_0: "wcsicmp a b = 0 \<longleftrightarrow> map towlower (c_str a) = map towlower (c_str b)"
  by (simp add: wcsicmp_def compare_chars_eq_0)

lemma wstring_compare_eq_0: "wstring_compare a b = 0 \<longleftrightarrow> a = b"
  by (simp add: wstring_compare_def compare_chars_eq_0)

lemma c_str_idem: "c_str (c_str s) = c_str s"
  by (simp add: c_str_def)

lemma c_str_id: "NUL \<notin> set s \<Longrightarrow> c_str s = s"
  unfolding c_str_def by (rule takeWhile_eq_all_conv [THEN iffD2]) auto

lemma registry_property_c_str:
  "GetDeviceRegistryStringProperty q = Inr (Some h) \<Longrightarrow> c_str h = h"
  by (auto simp: GetDeviceRegistryStringProperty_def c_str_idem split: if_splits sum.splits)

subsection \<open>The enumeration loop\<close>

lemma GetTapAdapters_loop_members:
  "GetTapAdapters_loop e h devInfo i adapters st =
     enumerate_members e h (end_error devInfo) (drop i (members devInfo)) adapters st"
proof (induction e h devInfo i adapters st rule: GetTapAdapters_loop.induct)
  case (1 e h devInfo i adapters st)
  show ?case
  proof (cases "i < length (members devInfo)")
    case False
    then show ?thesis
      by (subst GetTapAdapters_loop.simps) (simp add: SetupDiEnumDeviceInfo_def)
  next
    case True
    then have en: "SetupDiEnumDeviceInfo devInfo i = Inr (members devInfo ! i)"
      by (simp add: SetupDiEnumDeviceInfo_def)
    have dr: "drop i (members devInfo) = members devInfo ! i # drop (Suc i) (members devInfo)"
      using True by (simp add: Cons_nth_drop_Suc)
    show ?thesis
      apply (subst GetTapAdapters_loop.simps)
      apply (simp only: en dr enumerate_members.simps sum.case)
      using 1 [OF en]
      apply (auto simp: tap_step_def split: sum.splits option.splits)
      done
  qed
qed


lemma set_emplace_subset: "set (set_emplace a xs) \<subseteq> insert a (set xs)"
  by (induction xs) auto

lemma set_emplace_sorted:
  "sorted_wrt adapter_less xs \<Longrightarrow> sorted_wrt adapter_less (set_emplace a xs)"
proof (induction xs)
  case Nil
  then show ?case by simp
next
  case (Cons x xs)
  have "\<forall>y \<in> set (set_emplace a xs). adapter_less x y" if "adapter_less x a"
    using that Cons.prems set_emplace_subset [of a xs] by auto
  moreover have "\<forall>y \<in> set xs. adapter_less a y" if "adapter_less a x"
    using that Cons.prems by (auto simp: adapter_less_def)
  ultimately show ?case
    using Cons by auto
qed

lemma tap_step_sorted:
  "sorted_wrt adapter_less a \<Longrightarrow> tap_step e h d a st = (Inr a', st')
     \<Longrightarrow> sorted_wrt adapter_less a'"
  by (auto simp: tap_step_def set_emplace_sorted split: sum.splits option.splits if_splits)

lemma enumerate_members_sorted:
  "sorted_wrt adapter_less a \<Longrightarrow> enumerate_members e h err ds a st = (Inr r, st')
     \<Longrightarrow> sorted_wrt adapter_less r"
proof (induction ds arbitrary: a st)
  case Nil
  then show ?case by (auto split: if_splits)
next
  case (Cons d ds)
  then show ?case
    by (auto split: prod.splits sum.splits dest: tap_step_sorted)
qed

lemma sorted_adapters_distinct:
  "sorted_wrt adapter_less xs \<Longrightarrow> distinct (map guid xs)"
  by (induction xs) (auto simp: adapter_less_def)

lemma tap_step_removed: "tap_step e h d a st = (r, st') \<Longrightarrow> removed st' = removed st"
  by (auto simp: tap_step_def plugin_log_def split: sum.splits option.splits if_splits)

lemma enumerate_members_removed:
  "enumerate_members e h err ds a st = (r, st') \<Longrightarrow> removed st' = removed st"
proof (induction ds arbitrary: a st)
  case Nil
  then show ?case by (auto split: if_splits)
next
  case (Cons d ds)
  then show ?case
    by (auto split: prod.splits sum.splits dest: tap_step_removed)
qed

lemma tap_step_fst: "fst (tap_step e h d a st) = fst (tap_step e h d a st')"
  by (auto simp: tap_step_def split: sum.splits option.splits)

lemma enumerate_members_fst:
  "fst (enumerate_members e h err ds a st) = fst (enumerate_members e h err ds a st')"
proof (induction ds arbitrary: a st st')
  case Nil
  then show ?case by simp
next
  case (Cons d ds)
  obtain r s where r: "tap_step e h d a st = (r, s)" by (cases "tap_step e h d a st")
  obtain r' s' where r': "tap_step e h d a st' = (r', s')" by (cases "tap_step e h d a st'")
  have "r = r'" using tap_step_fst [of e h d a st st'] r r' by simp
  then show ?case
    using r r' Cons.IH [of _ s s'] by (auto split: sum.splits)
qed

lemma enumerate_members_drop:
  assumes "\<And>a st. tap_step e h d a st = (Inr a, st)"
  shows "enumerate_members e h err (xs @ d # ys) a st = enumerate_members e h err (xs @ ys) a st"
proof (induction xs arbitrary: a st)
  case Nil
  then show ?case using assms by simp
next
  case (Cons x xs)
  then show ?case by (auto split: prod.splits sum.splits)
qed

lemma enumerate_members_drop_fst:
  assumes "\<And>a st. \<exists>st'. tap_step e h d a st = (Inr a, st')"
  shows "fst (enumerate_members e h err (xs @ d # ys) a st)
           = fst (enumerate_members e h err (xs @ ys) a st)"
proof (induction xs arbitrary: a st)
  case Nil
  obtain st' where "tap_step e h d a st = (Inr a, st')" using assms by blast
  then show ?case using enumerate_members_fst [of e h err ys a st' st] by simp
next
  case (Cons x xs)
  then show ?case by (auto split: prod.splits sum.splits)
qed

lemma tap_step_provenance:
  "tap_step e h d a st = (Inr a', st') \<Longrightarrow> r \<in> set a' \<Longrightarrow>
     r \<in> set a \<or>
     (construct_adapter e d = Inr r \<and>
      (\<exists>v. GetDeviceRegistryStringProperty (hardwareId_prop d) = Inr (Some v) \<and> wcscmp v h = 0))"
  using set_emplace_subset
  by (fastforce simp: tap_step_def split: sum.splits option.splits if_splits)

lemma enumerate_members_provenance:
  "enumerate_members e h err ds a st = (Inr a', st') \<Longrightarrow> r \<in> set a' \<Longrightarrow>
     r \<in> set a \<or>
     (\<exists>d \<in> set ds. construct_adapter e d = Inr r \<and>
      (\<exists>v. GetDeviceRegistryStringProperty (hardwareId_prop d) = Inr (Some v) \<and> wcscmp v h = 0))"
proof (induction ds arbitrary: a st)
  case Nil
  then show ?case by (auto split: if_splits)
next
  case (Cons d ds)
  from Cons.prems(1) obtain a1 st1 where
    s: "tap_step e h d a st = (Inr a1, st1)" and
    r: "enumerate_members e h err ds a1 st1 = (Inr a', st')"
    by (auto split: prod.splits sum.splits)
  from Cons.IH [OF r Cons.prems(2)] tap_step_provenance [OF s]
  show ?case by auto
qed

subsection \<open>The removal loop\<close>

lemma DeleteOldMullvadAdapter_loop_members:
  "DeleteOldMullvadAdapter_loop g devInfo i n st =
     remove_members g (end_error devInfo) (drop i (members devInfo)) n st"
proof (induction g devInfo i n st rule: DeleteOldMullvadAdapter_loop.induct)
  case (1 g devInfo i n st)
  show ?case
  proof (cases "i < length (members devInfo)")
    case False
    then show ?thesis
      by (subst DeleteOldMullvadAdapter_loop.simps) (simp add: SetupDiEnumDeviceInfo_def)
  next
    case True
    then have en: "SetupDiEnumDeviceInfo devInfo i = Inr (members devInfo ! i)"
      by (simp add: SetupDiEnumDeviceInfo_def)
    have dr: "drop i (members devInfo) = members devInfo ! i # drop (Suc i) (members devInfo)"
      using True by (simp add: Cons_nth_drop_Suc)
    show ?thesis
      apply (subst DeleteOldMullvadAdapter_loop.simps)
      apply (simp only: en dr remove_members.simps sum.case)
      using 1 [OF en]
      apply (auto simp: delete_step_def split: sum.splits option.splits prod.splits)
      done
  qed
qed

lemma c_str_DEPRECATED: "c_str DEPRECATED_TAP_HARDWARE_ID = DEPRECATED_TAP_HARDWARE_ID"
  by (simp add: c_str_def DEPRECATED_TAP_HARDWARE_ID_def)

lemma legacy_test:
  "GetDeviceRegistryStringProperty (hardwareId_prop d) = Inr (Some h) \<Longrightarrow>
     wcscmp DEPRECATED_TAP_HARDWARE_ID h = 0 \<longleftrightarrow> carries_legacy_id d"
  using registry_property_c_str [of "hardwareId_prop d" h]
  by (auto simp: wcscmp_eq_0 c_str_DEPRECATED carries_legacy_id_def)

lemma delete_step_cases:
  "delete_step g d n st =
     (case GetDeviceRegistryStringProperty (hardwareId_prop d) of
        Inl ex \<Rightarrow> (Inl ex, st)
      | Inr v \<Rightarrow>
          if carries_legacy_id d then
            (case GetNetCfgInstanceId d of
               Inl ex \<Rightarrow> (Inl ex, st)
             | Inr instanceId \<Rightarrow>
                 if instanceId \<noteq> g then (Inr (n + 1), st)
                 else
                   (case removeDevice_error d of
                      Some lastError \<Rightarrow>
                        (Inl (WindowsError lastError ''Error removing Mullvad TAP device''), st)
                    | None \<Rightarrow> (Inr n, st\<lparr>removed := removed st @ [d]\<rparr>)))
          else (Inr n, st))"
  using legacy_test [of d]
  by (auto simp: delete_step_def wstring_compare_eq_0 SetupDiRemoveDevice_def carries_legacy_id_def
           split: sum.splits option.splits)

lemma delete_step_success:
  assumes "delete_step g d n st = (Inr n', st')"
  shows "removed st' = removed st @ filter (is_target g) [d]"
    and "n' = n + int (length (filter (is_sibling g) [d]))"
    and "log st' = log st"
    and "is_target g d \<longrightarrow> removeDevice_error d = None"
  using assms
  by (auto simp: delete_step_cases is_target_def is_sibling_def
           split: sum.splits option.splits if_splits)

lemma remove_members_success:
  "remove_members g err ds n st = (Inr n', st') \<Longrightarrow>
     removed st' = removed st @ filter (is_target g) ds \<and>
     n' = n + int (length (filter (is_sibling g) ds)) \<and>
     log st' = log st \<and>
     (\<forall>d \<in> set ds. is_target g d \<longrightarrow> removeDevice_error d = None)"
proof (induction ds arbitrary: n st)
  case Nil
  then show ?case by (auto split: if_splits)
next
  case (Cons d ds)
  from Cons.prems obtain n1 st1 where
    s: "delete_step g d n st = (Inr n1, st1)" and
    r: "remove_members g err ds n1 st1 = (Inr n', st')"
    by (auto split: prod.splits sum.splits)
  from Cons.IH [OF r] delete_step_success [OF s]
  show ?case by auto
qed

subsection \<open>The probes of the matcher\<close>

lemma findByAlias_None:
  "findByAlias t n = None \<longleftrightarrow> (\<forall>a \<in> set t. \<not> equals_ignoring_case (aliasName a) n)"
  by (auto simp: findByAlias_def find_None_iff wcsicmp_eq_0 equals_ignoring_case_def)

lemma findByAlias_Some:
  "findByAlias t n = Some a \<Longrightarrow> a \<in> set t \<and> equals_ignoring_case (aliasName a) n"
  by (auto simp: findByAlias_def find_Some_iff wcsicmp_eq_0 equals_ignoring_case_def)

declare decimal.simps [simp del]

lemma digit_chars:
  "map (\<lambda>n. char_of (48 + n)) [0, 1, 2, 3, 4, 5, 6, 7, 8, 9 :: nat] = ''0123456789''"
  by code_simp

lemma candidate_aliases_suffix:
  "i < 10 \<Longrightarrow> baseAlias @ CHR ''-'' # decimal i = candidate_aliases ! Suc i"
proof -
  assume "i < 10"
  then have "i = 0 \<or> i = 1 \<or> i = 2 \<or> i = 3 \<or> i = 4 \<or> i = 5 \<or> i = 6 \<or> i = 7 \<or> i = 8 \<or> i = 9"
    by arith
  then show ?thesis
    using digit_chars
    by (elim disjE) (simp_all add: baseAlias_def candidate_aliases_def decimal.simps)
qed

lemma probe_suffixes_Some:
  "probe_suffixes t i = Some a \<Longrightarrow>
     \<exists>k. i \<le> k \<and> k < 10 \<and> findByAlias t (candidate_aliases ! Suc k) = Some a \<and>
         (\<forall>j. i \<le> j \<and> j < k \<longrightarrow> findByAlias t (candidate_aliases ! Suc j) = None)"
proof (induction t i rule: probe_suffixes.induct)
  case (1 t i)
  show ?case
  proof (cases "i < 10")
    case False
    with "1.prems" show ?thesis by simp
  next
    case True
    show ?thesis
    proof (cases "findByAlias t (candidate_aliases ! Suc i)")
      case (Some b)
      with True "1.prems" have "a = b"
        by (simp add: candidate_aliases_suffix)
      with Some True show ?thesis by (intro exI [of _ i]) auto
    next
      case None
      with True "1.prems" have p: "probe_suffixes t (Suc i) = Some a"
        by (simp add: candidate_aliases_suffix)
      from None True have n: "findByAlias t (baseAlias @ ''-'' @ decimal i) = None"
        by (simp add: candidate_aliases_suffix)
      from "1.IH" [OF True n p] obtain k where
        k: "Suc i \<le> k" "k < 10" "findByAlias t (candidate_aliases ! Suc k) = Some a"
           "\<forall>j. Suc i \<le> j \<and> j < k \<longrightarrow> findByAlias t (candidate_aliases ! Suc j) = None"
        by blast
      have "\<forall>j. i \<le> j \<and> j < k \<longrightarrow> findByAlias t (candidate_aliases ! Suc j) = None"
      proof (intro allI impI)
        fix j assume "i \<le> j \<and> j < k"
        then consider "j = i" | "Suc i \<le> j \<and> j < k" by linarith
        then show "findByAlias t (candidate_aliases ! Suc j) = None"
          using None k(4) by cases auto
      qed
      with k show ?thesis by (intro exI [of _ k]) auto
    qed
  qed
qed

lemma probe_suffixes_None:
  "probe_suffixes t i = None \<Longrightarrow> i \<le> k \<Longrightarrow> k < 10 \<Longrightarrow>
     findByAlias t (candidate_aliases ! Suc k) = None"
proof (induction t i rule: probe_suffixes.induct)
  case (1 t i)
  from "1.prems" have i: "i < 10" by simp
  from "1.prems"(1) i have n: "findByAlias t (baseAlias @ ''-'' @ decimal i) = None"
    by (simp split: option.splits)
  from "1.prems"(1) i n have p: "probe_suffixes t (Suc i) = None"
    by simp
  show ?case
  proof (cases "k = i")
    case True
    with n i show ?thesis by (simp add: candidate_aliases_suffix)
  next
    case False
    with "1.prems" have "Suc i \<le> k" by simp
    from "1.IH" [OF i n p this "1.prems"(3)] show ?thesis .
  qed
qed

subsection \<open>Evaluating the examples\<close>

lemmas reader_defs =
  GetDeviceRegistryStringProperty_def GetDeviceStringProperty_def GetNetCfgInstanceId_def
  GetDeviceInstanceId_def buffer_bytes_def c_str_def

lemmas example_defs =
  test_device_def present_query_def absent_query_def test_env_def test_devinfo_def
  test_adapter_def empty_state_def

lemmas enumeration_defs =
  GetTapAdapters_def GetTapAdapters_loop_members tap_step_def construct_adapter_def
  in_sequence_def wcscmp_def adapter_less_def skip_message_def plugin_log_def

lemma one_current_adapter:
  "GetTapAdapters test_env (Inr (test_devinfo [test_device TAP_HARDWARE_ID ''A'']))
     TAP_HARDWARE_ID empty_state = (Inr [test_adapter ''A'' ''Mullvad-2''], empty_state)"
  by (simp add: enumeration_defs reader_defs example_defs TAP_HARDWARE_ID_def compare_chars_eq_0)

lemma two_current_adapters:
  "GetTapAdapters test_env
     (Inr (test_devinfo [test_device TAP_HARDWARE_ID ''B'', test_device TAP_HARDWARE_ID ''A'']))
     TAP_HARDWARE_ID empty_state
   = (Inr [test_adapter ''A'' ''Mullvad-2'', test_adapter ''B'' ''Other''], empty_state)"
  by (simp add: enumeration_defs reader_defs example_defs TAP_HARDWARE_ID_def compare_chars_eq_0)

lemma no_current_adapter:
  "GetTapAdapters test_env (Inr (test_devinfo [test_device DEPRECATED_TAP_HARDWARE_ID ''A'']))
     TAP_HARDWARE_ID empty_state = (Inr [], empty_state)"
  by (simp add: enumeration_defs reader_defs example_defs TAP_HARDWARE_ID_def
      DEPRECATED_TAP_HARDWARE_ID_def compare_chars_eq_0)

lemma in_adapter_details:
  "a \<in> set added \<Longrightarrow> set (adapter_details a) \<subseteq> set (concat (map adapter_details added))"
  by auto

section \<open>The claims\<close>

subsection \<open>The lifecycle controller\<close>

text \<open>
  Claim C1. Whatever set the enumeration of the current hardware ID produces: when it
  holds exactly one adapter, \<open>getAdapter\<close> returns that adapter as it is; when it holds
  two or more, \<open>getAdapter\<close> throws "Identified more TAP adapters than expected" (the
  ambiguity error), and the log has gained one entry whose details list the GUID, name
  and alias of every candidate.
\<close>

theorem getAdapter_one_or_many:
  assumes "GetTapAdapters e classDevs TAP_HARDWARE_ID st = (Inr added, st1)"
  shows "(\<forall>a. added = [a] \<longrightarrow> getAdapter e classDevs st = (Returns a, st1)) \<and>
         (2 \<le> length added \<longrightarrow>
            getAdapter e classDevs st =
              (Throws (Error ''Identified more TAP adapters than expected''),
               st1\<lparr>log := log st1 @
                  [PluginLogWithDetails ''Enumerable network TAP adapters''
                     (concat (map adapter_details added))]\<rparr>) \<and>
            (\<forall>a \<in> set added.
               {''    Guid: '' @ guid a, ''    Name: '' @ name a, ''    Alias: '' @ aliasName a}
                 \<subseteq> set (concat (map adapter_details added))))"
proof (intro conjI allI impI ballI)
  fix a assume "added = [a]"
  with assms show "getAdapter e classDevs st = (Returns a, st1)"
    by (simp add: getAdapter_def deref_begin_def)
next
  assume "2 \<le> length added"
  with assms show "getAdapter e classDevs st =
      (Throws (Error ''Identified more TAP adapters than expected''),
       st1\<lparr>log := log st1 @
          [PluginLogWithDetails ''Enumerable network TAP adapters''
             (concat (map adapter_details added))]\<rparr>)"
    by (simp add: getAdapter_def LogAdapters_def plugin_log_def)
next
  fix a assume "a \<in> set added"
  from in_adapter_details [OF this]
  show "{''    Guid: '' @ guid a, ''    Name: '' @ name a, ''    Alias: '' @ aliasName a}
          \<subseteq> set (concat (map adapter_details added))"
    by (auto simp: adapter_details_def)
qed

theorem getAdapter_one_or_many_witness:
  "getAdapter test_env (Inr (test_devinfo [test_device TAP_HARDWARE_ID ''A''])) empty_state
     = (Returns (test_adapter ''A'' ''Mullvad-2''), empty_state) \<and>
   getAdapter test_env
     (Inr (test_devinfo [test_device TAP_HARDWARE_ID ''B'', test_device TAP_HARDWARE_ID ''A'']))
     empty_state
     = (Throws (Error ''Identified more TAP adapters than expected''),
        \<lparr>log = [PluginLogWithDetails ''Enumerable network TAP adapters''
                  [''Adapter'', ''    Guid: A'', ''    Name: TAP Adapter'', ''    Alias: Mullvad-2'',
                   ''Adapter'', ''    Guid: B'', ''    Name: TAP Adapter'', ''    Alias: Other'']],
         removed = []\<rparr>)"
  using getAdapter_one_or_many [OF one_current_adapter]
        getAdapter_one_or_many [OF two_current_adapters]
  by (simp add: adapter_details_def test_adapter_def empty_state_def)

text \<open>
  Claim C2. \<open>getAdapter\<close> has no check for an empty set: when the enumeration of the
  current hardware ID yields no adapter, it dereferences \<open>begin()\<close> of the empty set,
  which is undefined behaviour, without throwing and without logging. The final
  dereference is undefined exactly when the enumeration succeeded with an empty set, so
  it is safe only if at least one adapter was enumerated.
\<close>

theorem getAdapter_empty_set:
  "(GetTapAdapters e classDevs TAP_HARDWARE_ID st = (Inr [], st1)
      \<longrightarrow> getAdapter e classDevs st = (UndefinedBehaviour, st1)) \<and>
   (fst (getAdapter e classDevs st) = UndefinedBehaviour
      \<longleftrightarrow> fst (GetTapAdapters e classDevs TAP_HARDWARE_ID st) = Inr [])"
  by (auto simp: getAdapter_def deref_begin_def split: prod.splits sum.splits list.splits)

theorem getAdapter_empty_set_witness:
  "getAdapter test_env (Inr (test_devinfo [test_device DEPRECATED_TAP_HARDWARE_ID ''A'']))
     empty_state = (UndefinedBehaviour, empty_state)"
  using getAdapter_empty_set [of test_env _ empty_state empty_state] no_current_adapter
  by simp

subsection \<open>The property reader\<close>

text \<open>
  Claim C9. \<open>GetDeviceRegistryStringProperty\<close> returns \<open>nullopt\<close> when the sizing call
  fails with "invalid data"; it throws the Windows error of the sizing call when that
  call fails with anything other than "insufficient buffer" or "invalid data"; and it
  throws the Windows error of the fill call whenever the fill call, once made, fails.
\<close>

theorem GetDeviceRegistryStringProperty_outcomes:
  "(\<not> sizing_ok q \<and> sizing_error q = ERROR_INVALID_DATA
      \<longrightarrow> GetDeviceRegistryStringProperty q = Inr None) \<and>
   (\<not> sizing_ok q \<and> sizing_error q \<noteq> ERROR_INSUFFICIENT_BUFFER
        \<and> sizing_error q \<noteq> ERROR_INVALID_DATA
      \<longrightarrow> GetDeviceRegistryStringProperty q
            = Inl (WindowsError (sizing_error q) ''SetupDiGetDeviceRegistryPropertyW'')) \<and>
   ((sizing_ok q \<or> sizing_error q = ERROR_INSUFFICIENT_BUFFER)
        \<and> fill q (buffer_bytes (required_size q)) = Inl lastError
      \<longrightarrow> GetDeviceRegistryStringProperty q
            = Inl (WindowsError lastError ''Failed to read device property''))"
  by (auto simp: GetDeviceRegistryStringProperty_def)

theorem GetDeviceRegistryStringProperty_outcomes_witness:
  "GetDeviceRegistryStringProperty absent_query = Inr None \<and>
   GetDeviceRegistryStringProperty denied_query
     = Inl (WindowsError 5 ''SetupDiGetDeviceRegistryPropertyW'') \<and>
   GetDeviceRegistryStringProperty unreadable_query
     = Inl (WindowsError 5 ''Failed to read device property'')"
  using GetDeviceRegistryStringProperty_outcomes [of absent_query]
        GetDeviceRegistryStringProperty_outcomes [of denied_query]
        GetDeviceRegistryStringProperty_outcomes [of unreadable_query 5]
  by (simp add: absent_query_def denied_query_def unreadable_query_def)

subsection \<open>The adapter matcher\<close>

lemma length_candidate_aliases: "length candidate_aliases = 11"
  by (simp add: candidate_aliases_def)

lemma candidate_aliases_0: "candidate_aliases ! 0 = baseAlias"
  by (simp add: candidate_aliases_def baseAlias_def)

lemma earlier_candidate:
  "j < k \<Longrightarrow> k \<le> length candidate_aliases \<Longrightarrow> candidate_aliases ! j \<in> set (take k candidate_aliases)"
  by (auto simp: in_set_conv_nth intro!: exI [of _ j])

lemma FindMullvadAdapter_base:
  assumes "\<exists>a \<in> set t. equals_ignoring_case (aliasName a) baseAlias"
  shows "\<exists>a \<in> set t. FindMullvadAdapter t = Some a \<and> equals_ignoring_case (aliasName a) baseAlias"
proof -
  from assms have "findByAlias t baseAlias \<noteq> None"
    by (simp add: findByAlias_None)
  then obtain a where a: "findByAlias t baseAlias = Some a" by auto
  moreover from assms have "t \<noteq> []" by auto
  ultimately have "FindMullvadAdapter t = Some a"
    by (simp add: FindMullvadAdapter_def)
  with findByAlias_Some [OF a] show ?thesis by auto
qed

lemma FindMullvadAdapter_suffix:
  assumes k: "k < 10"
    and hit: "\<exists>a \<in> set t. equals_ignoring_case (aliasName a) (candidate_aliases ! Suc k)"
    and base: "findByAlias t baseAlias = None"
    and before: "\<forall>j < k. findByAlias t (candidate_aliases ! Suc j) = None"
  shows "\<exists>a \<in> set t. FindMullvadAdapter t = Some a
           \<and> equals_ignoring_case (aliasName a) (candidate_aliases ! Suc k)"
proof -
  from hit have t: "t \<noteq> []" by auto
  from hit have here: "findByAlias t (candidate_aliases ! Suc k) \<noteq> None"
    by (simp add: findByAlias_None)
  have "probe_suffixes t 0 \<noteq> None"
    using probe_suffixes_None [of t 0 k] k here by auto
  then obtain a where a: "probe_suffixes t 0 = Some a" by auto
  from probe_suffixes_Some [OF a] obtain k' where
    k': "k' < 10" "findByAlias t (candidate_aliases ! Suc k') = Some a"
        "\<forall>j. j < k' \<longrightarrow> findByAlias t (candidate_aliases ! Suc j) = None"
    by auto
  have "k' = k"
  proof (rule ccontr)
    assume "k' \<noteq> k"
    then consider "k' < k" | "k < k'" by linarith
    then show False
    proof cases
      case 1
      with before k'(2) show False by auto
    next
      case 2
      with k'(3) here show False by auto
    qed
  qed
  with k'(2) findByAlias_Some [of t "candidate_aliases ! Suc k" a]
  have "a \<in> set t \<and> equals_ignoring_case (aliasName a) (candidate_aliases ! Suc k)"
    by simp
  moreover from t base a have "FindMullvadAdapter t = Some a"
    by (simp add: FindMullvadAdapter_def)
  ultimately show ?thesis by auto
qed

lemma FindMullvadAdapter_none:
  assumes "\<forall>n \<in> set candidate_aliases. findByAlias t n = None"
  shows "FindMullvadAdapter t = None"
proof -
  have base: "findByAlias t baseAlias = None"
    using assms candidate_aliases_0 nth_mem [of 0 candidate_aliases]
    by (simp add: length_candidate_aliases)
  have "probe_suffixes t 0 = None"
  proof (rule ccontr)
    assume "probe_suffixes t 0 \<noteq> None"
    then obtain a where "probe_suffixes t 0 = Some a" by auto
    from probe_suffixes_Some [OF this] obtain k where
      "k < 10" "findByAlias t (candidate_aliases ! Suc k) = Some a" by auto
    with assms nth_mem [of "Suc k" candidate_aliases] show False
      by (simp add: length_candidate_aliases)
  qed
  with base show ?thesis by (simp add: FindMullvadAdapter_def)
qed

text \<open>
  Claim C3. \<open>FindMullvadAdapter\<close> finds nothing in an empty set. Otherwise it goes
  through the eleven names "Mullvad", "Mullvad-0", ..., "Mullvad-9" in this order and
  returns an adapter whose alias equals, case-insensitively, the first of these names
  that any adapter of the set bears: the base name wins over every suffixed name, and
  the lowest suffix wins among the suffixed names. When no adapter bears any of the
  eleven names, it finds nothing.
\<close>

theorem FindMullvadAdapter_policy:
  "FindMullvadAdapter [] = None \<and>
   (k < length candidate_aliases \<and>
    (\<exists>a \<in> set t. equals_ignoring_case (aliasName a) (candidate_aliases ! k)) \<and>
    (\<forall>n \<in> set (take k candidate_aliases). \<forall>a \<in> set t. \<not> equals_ignoring_case (aliasName a) n)
      \<longrightarrow> (\<exists>a \<in> set t. FindMullvadAdapter t = Some a
             \<and> equals_ignoring_case (aliasName a) (candidate_aliases ! k))) \<and>
   ((\<forall>n \<in> set candidate_aliases. \<forall>a \<in> set t. \<not> equals_ignoring_case (aliasName a) n)
      \<longrightarrow> FindMullvadAdapter t = None)"
proof (intro conjI impI)
  show "FindMullvadAdapter [] = None"
    by (simp add: FindMullvadAdapter_def)
next
  assume h: "k < length candidate_aliases \<and>
    (\<exists>a \<in> set t. equals_ignoring_case (aliasName a) (candidate_aliases ! k)) \<and>
    (\<forall>n \<in> set (take k candidate_aliases). \<forall>a \<in> set t. \<not> equals_ignoring_case (aliasName a) n)"
  show "\<exists>a \<in> set t. FindMullvadAdapter t = Some a
          \<and> equals_ignoring_case (aliasName a) (candidate_aliases ! k)"
  proof (cases k)
    case 0
    with h FindMullvadAdapter_base [of t] show ?thesis
      by (simp add: candidate_aliases_0)
  next
    case (Suc k')
    from h have before: "\<forall>j < k. findByAlias t (candidate_aliases ! j) = None"
      using earlier_candidate [of _ k] by (auto simp: findByAlias_None)
    from before Suc have base: "findByAlias t baseAlias = None"
      using candidate_aliases_0 by auto
    from before Suc have prev: "\<forall>j < k'. findByAlias t (candidate_aliases ! Suc j) = None"
      by auto
    from h Suc have "k' < 10" by (simp add: length_candidate_aliases)
    from FindMullvadAdapter_suffix [OF this _ base prev] h Suc show ?thesis by simp
  qed
next
  assume "\<forall>n \<in> set candidate_aliases. \<forall>a \<in> set t. \<not> equals_ignoring_case (aliasName a) n"
  then show "FindMullvadAdapter t = None"
    by (intro FindMullvadAdapter_none) (simp add: findByAlias_None)
qed

lemma towlower_chars:
  "map towlower ''MULVADmulvadOther-0123456789'' = ''mulvadmulvadother-0123456789''"
  by code_simp

theorem FindMullvadAdapter_policy_witness:
  "FindMullvadAdapter three_adapters = Some (test_adapter ''C'' ''Mullvad-1'') \<and>
   FindMullvadAdapter [test_adapter ''D'' ''MULLVAD''] = Some (test_adapter ''D'' ''MULLVAD'') \<and>
   FindMullvadAdapter [test_adapter ''B'' ''Other''] = None"
  using FindMullvadAdapter_policy [of 2 three_adapters]
        FindMullvadAdapter_policy [of 0 "[test_adapter ''D'' ''MULLVAD'']"]
        FindMullvadAdapter_policy [of 0 "[test_adapter ''B'' ''Other'']"]
        towlower_chars
  by (simp add: three_adapters_def test_adapter_def candidate_aliases_def
      equals_ignoring_case_def c_str_def)

subsection \<open>Removal of the legacy adapter\<close>

lemma not_requested_step:
  "not_requested h d \<Longrightarrow> tap_step e h d a st = (Inr a, st)"
  using registry_property_c_str [of "hardwareId_prop d"]
  by (auto simp: not_requested_def tap_step_def wcscmp_eq_0 split: sum.splits option.splits)

lemma enumerate_members_none_requested:
  "\<forall>d \<in> set ds. not_requested h d \<Longrightarrow>
     enumerate_members e h ERROR_NO_MORE_ITEMS ds a st = (Inr a, st)"
  by (induction ds) (auto simp: not_requested_step)

lemma GetTapAdapters_removed:
  "GetTapAdapters e classDevs h st = (r, st1) \<Longrightarrow> removed st1 = removed st"
  by (auto simp: GetTapAdapters_def GetTapAdapters_loop_members
           split: sum.splits dest: enumerate_members_removed)

text \<open>
  Claim C5. \<open>DeleteOldMullvadAdapter\<close> throws "Mullvad TAP adapter not found" whenever
  the matcher finds no adapter among the adapters enumerated for the legacy hardware ID,
  and up to that point no device has been removed. This is the case in particular when
  the device list holds no device with the legacy hardware ID at all.
\<close>

theorem DeleteOldMullvadAdapter_not_found:
  "(GetTapAdapters e classDevs DEPRECATED_TAP_HARDWARE_ID st = (Inr tapAdapters, st') \<and>
    FindMullvadAdapter tapAdapters = None
      \<longrightarrow> DeleteOldMullvadAdapter e classDevs classDevs' st
            = (Inl (Error ''Mullvad TAP adapter not found''), st') \<and>
          removed st' = removed st) \<and>
   (classDevs = Inr devInfo \<and> end_error devInfo = ERROR_NO_MORE_ITEMS \<and>
    (\<forall>d \<in> set (members devInfo). not_requested DEPRECATED_TAP_HARDWARE_ID d)
      \<longrightarrow> DeleteOldMullvadAdapter e classDevs classDevs' st
            = (Inl (Error ''Mullvad TAP adapter not found''), st))"
proof (intro conjI impI)
  assume h: "GetTapAdapters e classDevs DEPRECATED_TAP_HARDWARE_ID st = (Inr tapAdapters, st') \<and>
    FindMullvadAdapter tapAdapters = None"
  then show "DeleteOldMullvadAdapter e classDevs classDevs' st
      = (Inl (Error ''Mullvad TAP adapter not found''), st')"
    by (simp add: DeleteOldMullvadAdapter_def)
  from h show "removed st' = removed st"
    by (auto dest: GetTapAdapters_removed)
next
  assume h: "classDevs = Inr devInfo \<and> end_error devInfo = ERROR_NO_MORE_ITEMS \<and>
    (\<forall>d \<in> set (members devInfo). not_requested DEPRECATED_TAP_HARDWARE_ID d)"
  then have "GetTapAdapters e classDevs DEPRECATED_TAP_HARDWARE_ID st = (Inr [], st)"
    by (simp add: GetTapAdapters_def GetTapAdapters_loop_members
        enumerate_members_none_requested)
  then show "DeleteOldMullvadAdapter e classDevs classDevs' st
      = (Inl (Error ''Mullvad TAP adapter not found''), st)"
    by (simp add: DeleteOldMullvadAdapter_def FindMullvadAdapter_def)
qed

lemma unnamed_legacy_adapter:
  "GetTapAdapters test_env (Inr (test_devinfo [test_device DEPRECATED_TAP_HARDWARE_ID ''B'']))
     DEPRECATED_TAP_HARDWARE_ID empty_state = (Inr [test_adapter ''B'' ''Other''], empty_state)"
  by (simp add: enumeration_defs reader_defs example_defs DEPRECATED_TAP_HARDWARE_ID_def
      compare_chars_eq_0)

lemma unnamed_not_found: "FindMullvadAdapter [test_adapter ''B'' ''Other''] = None"
  using towlower_chars
  by (simp add: FindMullvadAdapter_def findByAlias_def wcsicmp_def c_str_def baseAlias_def
      test_adapter_def compare_chars_eq_0 decimal.simps)

theorem DeleteOldMullvadAdapter_not_found_witness:
  "DeleteOldMullvadAdapter test_env
     (Inr (test_devinfo [test_device DEPRECATED_TAP_HARDWARE_ID ''B'']))
     (Inr (test_devinfo [test_device DEPRECATED_TAP_HARDWARE_ID ''B''])) empty_state
     = (Inl (Error ''Mullvad TAP adapter not found''), empty_state) \<and>
   DeleteOldMullvadAdapter test_env
     (Inr (test_devinfo [test_device TAP_HARDWARE_ID ''A'']))
     (Inr (test_devinfo [test_device TAP_HARDWARE_ID ''A''])) empty_state
     = (Inl (Error ''Mullvad TAP adapter not found''), empty_state) \<and>
   DeleteOldMullvadAdapter test_env (Inr (test_devinfo [])) (Inr (test_devinfo [])) empty_state
     = (Inl (Error ''Mullvad TAP adapter not found''), empty_state)"
  using DeleteOldMullvadAdapter_not_found
          [where e = test_env and st = empty_state and st' = empty_state
             and classDevs = "Inr (test_devinfo [test_device DEPRECATED_TAP_HARDWARE_ID ''B''])"
             and classDevs' = "Inr (test_devinfo [test_device DEPRECATED_TAP_HARDWARE_ID ''B''])"
             and tapAdapters = "[test_adapter ''B'' ''Other'']"]
        DeleteOldMullvadAdapter_not_found
          [where e = test_env and st = empty_state
             and classDevs = "Inr (test_devinfo [test_device TAP_HARDWARE_ID ''A''])"
             and classDevs' = "Inr (test_devinfo [test_device TAP_HARDWARE_ID ''A''])"
             and devInfo = "test_devinfo [test_device TAP_HARDWARE_ID ''A'']"]
        DeleteOldMullvadAdapter_not_found
          [where e = test_env and st = empty_state
             and classDevs = "Inr (test_devinfo [])" and classDevs' = "Inr (test_devinfo [])"
             and devInfo = "test_devinfo []"]
        unnamed_legacy_adapter unnamed_not_found
  by (simp add: not_requested_def reader_defs example_defs TAP_HARDWARE_ID_def
      DEPRECATED_TAP_HARDWARE_ID_def)

lemma remove_members_target_fails:
  assumes "is_target g d" and "removeDevice_error d = Some lastError"
  shows "remove_members g err (d # ds) n st
           = (Inl (WindowsError lastError ''Error removing Mullvad TAP device''), st)"
  using assms
  by (auto simp: delete_step_cases is_target_def carries_legacy_id_def)

lemma DeleteOldMullvadAdapter_found:
  assumes "GetTapAdapters e classDevs DEPRECATED_TAP_HARDWARE_ID st = (Inr tapAdapters, st')"
    and "FindMullvadAdapter tapAdapters = Some mullvadAdapter"
  shows "DeleteOldMullvadAdapter e classDevs (Inr devInfo) st =
           (case remove_members (guid mullvadAdapter) (end_error devInfo) (members devInfo) 0 st' of
              (Inl ex, st2) \<Rightarrow> (Inl ex, st2)
            | (Inr n, st2) \<Rightarrow>
                (Inr (if n > 0 then SOME_REMAINING_TAP_ADAPTERS else NO_REMAINING_TAP_ADAPTERS),
                 st2))"
  using assms
  by (simp add: DeleteOldMullvadAdapter_def DeleteOldMullvadAdapter_loop_members)

text \<open>
  Claim C4. Suppose \<open>DeleteOldMullvadAdapter\<close> has found its adapter among the legacy
  adapters, and look at the devices of the device list it enumerates next. When the
  operation returns, the devices it has removed are exactly those that carry the legacy
  hardware ID and whose configuration identity is the identity of the matched adapter;
  the other devices with the legacy hardware ID were counted and not removed, and the
  result is "some remaining" exactly when there is such a device, "none remaining"
  otherwise. A failing removal is fatal: the loop throws the Windows error of the
  removal at that device, and the operation cannot return a result when the removal of
  a matching device fails.
\<close>

theorem DeleteOldMullvadAdapter_removal:
  assumes "GetTapAdapters e classDevs DEPRECATED_TAP_HARDWARE_ID st = (Inr tapAdapters, st')"
    and "FindMullvadAdapter tapAdapters = Some mullvadAdapter"
  shows "(DeleteOldMullvadAdapter e classDevs (Inr devInfo) st = (Inr result, st'') \<longrightarrow>
            removed st'' =
              removed st' @ filter (is_target (guid mullvadAdapter)) (members devInfo) \<and>
            (result = SOME_REMAINING_TAP_ADAPTERS
               \<longleftrightarrow> (\<exists>d \<in> set (members devInfo). is_sibling (guid mullvadAdapter) d)) \<and>
            (result = NO_REMAINING_TAP_ADAPTERS
               \<longleftrightarrow> \<not> (\<exists>d \<in> set (members devInfo). is_sibling (guid mullvadAdapter) d))) \<and>
         ((\<exists>d \<in> set (members devInfo).
              is_target (guid mullvadAdapter) d \<and> removeDevice_error d \<noteq> None) \<longrightarrow>
            (\<exists>ex. fst (DeleteOldMullvadAdapter e classDevs (Inr devInfo) st) = Inl ex)) \<and>
         (i < length (members devInfo) \<and>
          is_target (guid mullvadAdapter) (members devInfo ! i) \<and>
          removeDevice_error (members devInfo ! i) = Some lastError \<longrightarrow>
            DeleteOldMullvadAdapter_loop (guid mullvadAdapter) devInfo i n s =
              (Inl (WindowsError lastError ''Error removing Mullvad TAP device''), s))"
proof (intro conjI impI)
  let ?g = "guid mullvadAdapter"
  note found = DeleteOldMullvadAdapter_found [OF assms, of devInfo]
  {
    assume r: "DeleteOldMullvadAdapter e classDevs (Inr devInfo) st = (Inr result, st'')"
    then obtain k where
      k: "remove_members ?g (end_error devInfo) (members devInfo) 0 st' = (Inr k, st'')" and
      res: "result = (if k > 0 then SOME_REMAINING_TAP_ADAPTERS else NO_REMAINING_TAP_ADAPTERS)"
      unfolding found by (auto split: prod.splits sum.splits)
    from remove_members_success [OF k] have
      rem: "removed st'' = removed st' @ filter (is_target ?g) (members devInfo)" and
      cnt: "k = int (length (filter (is_sibling ?g) (members devInfo)))"
      by auto
    from cnt have pos: "k > 0 \<longleftrightarrow> (\<exists>d \<in> set (members devInfo). is_sibling ?g d)"
      by (auto simp: filter_empty_conv)
    show "removed st'' = removed st' @ filter (is_target ?g) (members devInfo)"
      by (rule rem)
    show "result = SOME_REMAINING_TAP_ADAPTERS
            \<longleftrightarrow> (\<exists>d \<in> set (members devInfo). is_sibling ?g d)"
      using res pos by auto
    show "result = NO_REMAINING_TAP_ADAPTERS
            \<longleftrightarrow> \<not> (\<exists>d \<in> set (members devInfo). is_sibling ?g d)"
      using res pos by auto
  }
  {
    assume bad: "\<exists>d \<in> set (members devInfo). is_target ?g d \<and> removeDevice_error d \<noteq> None"
    show "\<exists>ex. fst (DeleteOldMullvadAdapter e classDevs (Inr devInfo) st) = Inl ex"
    proof (cases "remove_members ?g (end_error devInfo) (members devInfo) 0 st'")
      case (Pair r st2)
      show ?thesis
      proof (cases r)
        case (Inl ex)
        with Pair show ?thesis unfolding found by simp
      next
        case (Inr k)
        with Pair remove_members_success [of ?g "end_error devInfo" "members devInfo" 0 st' k st2]
          bad show ?thesis by auto
      qed
    qed
  }
  {
    assume h: "i < length (members devInfo) \<and>
          is_target ?g (members devInfo ! i) \<and>
          removeDevice_error (members devInfo ! i) = Some lastError"
    then have "drop i (members devInfo) = members devInfo ! i # drop (Suc i) (members devInfo)"
      by (simp add: Cons_nth_drop_Suc)
    with h show "DeleteOldMullvadAdapter_loop ?g devInfo i n s =
              (Inl (WindowsError lastError ''Error removing Mullvad TAP device''), s)"
      by (simp add: DeleteOldMullvadAdapter_loop_members remove_members_target_fails
          del: remove_members.simps)
  }
qed


lemma two_legacy_adapters:
  "GetTapAdapters test_env
     (Inr (test_devinfo [test_device DEPRECATED_TAP_HARDWARE_ID ''D'',
                         test_device DEPRECATED_TAP_HARDWARE_ID ''B'']))
     DEPRECATED_TAP_HARDWARE_ID empty_state
   = (Inr [test_adapter ''B'' ''Other'', test_adapter ''D'' ''MULLVAD''], empty_state)"
  by (simp add: enumeration_defs reader_defs example_defs DEPRECATED_TAP_HARDWARE_ID_def
      compare_chars_eq_0)

lemma one_legacy_adapter:
  "GetTapAdapters test_env
     (Inr (test_devinfo [test_device DEPRECATED_TAP_HARDWARE_ID ''D'']))
     DEPRECATED_TAP_HARDWARE_ID empty_state
   = (Inr [test_adapter ''D'' ''MULLVAD''], empty_state)"
  by (simp add: enumeration_defs reader_defs example_defs DEPRECATED_TAP_HARDWARE_ID_def
      compare_chars_eq_0)

lemmas matcher_defs =
  FindMullvadAdapter_def findByAlias_def wcsicmp_def c_str_def baseAlias_def
  test_adapter_def compare_chars_eq_0 decimal.simps

lemma found_among_two:
  "FindMullvadAdapter [test_adapter ''B'' ''Other'', test_adapter ''D'' ''MULLVAD'']
     = Some (test_adapter ''D'' ''MULLVAD'')"
  using towlower_chars by (simp add: matcher_defs)

lemma found_alone:
  "FindMullvadAdapter [test_adapter ''D'' ''MULLVAD''] = Some (test_adapter ''D'' ''MULLVAD'')"
  using towlower_chars by (simp add: matcher_defs)

lemmas removal_defs =
  DeleteOldMullvadAdapter_def DeleteOldMullvadAdapter_loop_members delete_step_def
  SetupDiRemoveDevice_def wcscmp_def wstring_compare_def

lemma removal_with_sibling:
  "DeleteOldMullvadAdapter test_env
     (Inr (test_devinfo [test_device DEPRECATED_TAP_HARDWARE_ID ''D'',
                         test_device DEPRECATED_TAP_HARDWARE_ID ''B'']))
     (Inr (test_devinfo [test_device DEPRECATED_TAP_HARDWARE_ID ''D'',
                         test_device DEPRECATED_TAP_HARDWARE_ID ''B''])) empty_state
   = (Inr SOME_REMAINING_TAP_ADAPTERS,
      \<lparr>log = [], removed = [test_device DEPRECATED_TAP_HARDWARE_ID ''D'']\<rparr>)"
  by (simp add: removal_defs two_legacy_adapters found_among_two)
     (simp add: removal_defs reader_defs example_defs DEPRECATED_TAP_HARDWARE_ID_def
        compare_chars_eq_0)

lemma removal_alone:
  "DeleteOldMullvadAdapter test_env
     (Inr (test_devinfo [test_device DEPRECATED_TAP_HARDWARE_ID ''D'']))
     (Inr (test_devinfo [test_device DEPRECATED_TAP_HARDWARE_ID ''D''])) empty_state
   = (Inr NO_REMAINING_TAP_ADAPTERS,
      \<lparr>log = [], removed = [test_device DEPRECATED_TAP_HARDWARE_ID ''D'']\<rparr>)"
  by (simp add: removal_defs one_legacy_adapter found_alone)
     (simp add: removal_defs reader_defs example_defs DEPRECATED_TAP_HARDWARE_ID_def
        compare_chars_eq_0)

theorem DeleteOldMullvadAdapter_removal_witness:
  "DeleteOldMullvadAdapter test_env
     (Inr (test_devinfo [test_device DEPRECATED_TAP_HARDWARE_ID ''D'',
                         test_device DEPRECATED_TAP_HARDWARE_ID ''B'']))
     (Inr (test_devinfo [test_device DEPRECATED_TAP_HARDWARE_ID ''D'',
                         test_device DEPRECATED_TAP_HARDWARE_ID ''B''])) empty_state
   = (Inr SOME_REMAINING_TAP_ADAPTERS,
      \<lparr>log = [], removed = [test_device DEPRECATED_TAP_HARDWARE_ID ''D'']\<rparr>) \<and>
   filter (is_target ''D'')
     [test_device DEPRECATED_TAP_HARDWARE_ID ''D'', test_device DEPRECATED_TAP_HARDWARE_ID ''B'']
   = [test_device DEPRECATED_TAP_HARDWARE_ID ''D''] \<and>
   is_sibling ''D'' (test_device DEPRECATED_TAP_HARDWARE_ID ''B'') \<and>
   DeleteOldMullvadAdapter test_env
     (Inr (test_devinfo [test_device DEPRECATED_TAP_HARDWARE_ID ''D'']))
     (Inr (test_devinfo [test_device DEPRECATED_TAP_HARDWARE_ID ''D''])) empty_state
   = (Inr NO_REMAINING_TAP_ADAPTERS,
      \<lparr>log = [], removed = [test_device DEPRECATED_TAP_HARDWARE_ID ''D'']\<rparr>) \<and>
   \<not> is_sibling ''D'' (test_device DEPRECATED_TAP_HARDWARE_ID ''D'') \<and>
   (\<exists>ex. fst (DeleteOldMullvadAdapter test_env
     (Inr (test_devinfo [test_device DEPRECATED_TAP_HARDWARE_ID ''D'']))
     (Inr (test_devinfo [failing_removal (test_device DEPRECATED_TAP_HARDWARE_ID ''D'')]))
     empty_state) = Inl ex)"
proof -
  have t: "is_target ''D'' (test_device DEPRECATED_TAP_HARDWARE_ID ''D'')"
          "\<not> is_target ''D'' (test_device DEPRECATED_TAP_HARDWARE_ID ''B'')"
          "is_target ''D'' (failing_removal (test_device DEPRECATED_TAP_HARDWARE_ID ''D''))"
    by (simp_all add: is_target_def carries_legacy_id_def failing_removal_def reader_defs
        example_defs DEPRECATED_TAP_HARDWARE_ID_def)
  have s: "is_sibling ''D'' (test_device DEPRECATED_TAP_HARDWARE_ID ''B'')"
          "\<not> is_sibling ''D'' (test_device DEPRECATED_TAP_HARDWARE_ID ''D'')"
    by (simp_all add: is_sibling_def carries_legacy_id_def reader_defs
        example_defs DEPRECATED_TAP_HARDWARE_ID_def)
  have g: "guid (test_adapter ''D'' ''MULLVAD'') = ''D''"
    by (simp add: test_adapter_def)
  have f: "removeDevice_error (failing_removal (test_device DEPRECATED_TAP_HARDWARE_ID ''D''))
             \<noteq> None"
    by (simp add: failing_removal_def)
  note a = DeleteOldMullvadAdapter_removal [OF two_legacy_adapters found_among_two,
      where devInfo = "test_devinfo [test_device DEPRECATED_TAP_HARDWARE_ID ''D'',
                                     test_device DEPRECATED_TAP_HARDWARE_ID ''B'']"]
  note b = DeleteOldMullvadAdapter_removal [OF one_legacy_adapter found_alone,
      where devInfo = "test_devinfo [test_device DEPRECATED_TAP_HARDWARE_ID ''D'']"]
  note c = DeleteOldMullvadAdapter_removal [OF one_legacy_adapter found_alone,
      where devInfo = "test_devinfo [failing_removal (test_device DEPRECATED_TAP_HARDWARE_ID ''D'')]"]
  show ?thesis
    using a b c removal_with_sibling removal_alone t s f
    by (simp add: g test_devinfo_def)
qed

subsection \<open>The enumerator\<close>

lemma GetTapAdapters_members:
  "GetTapAdapters e (Inr devInfo) h st =
     enumerate_members e h (end_error devInfo) (members devInfo) [] st"
  by (simp add: GetTapAdapters_def GetTapAdapters_loop_members)

text \<open>
  Claim C6. Whatever the requested hardware ID and whatever the device: when reading the
  hardware-ID property of the device yields no value, or a value that is not exactly
  the requested hardware ID, the enumeration gives the same result, the same log
  included, as if the device were not in the list. So no record of the candidate set
  comes from that device. The requested ID is compared as the C string \<open>wcscmp\<close>
  receives, which is the ID itself when it holds no terminator, as is the case for both
  hardware IDs of the code.
\<close>

theorem GetTapAdapters_filter:
  "(GetDeviceRegistryStringProperty (hardwareId_prop d) = Inr v \<and>
    v \<noteq> Some (c_str tapHardwareId) \<longrightarrow>
      GetTapAdapters e (Inr (devInfo\<lparr>members := before @ d # after\<rparr>)) tapHardwareId st
        = GetTapAdapters e (Inr (devInfo\<lparr>members := before @ after\<rparr>)) tapHardwareId st) \<and>
   (NUL \<notin> set tapHardwareId \<longrightarrow> c_str tapHardwareId = tapHardwareId)"
proof (intro conjI impI)
  show "c_str tapHardwareId = tapHardwareId" if "NUL \<notin> set tapHardwareId"
    using that by (rule c_str_id)
next
  assume h: "GetDeviceRegistryStringProperty (hardwareId_prop d) = Inr v \<and>
    v \<noteq> Some (c_str tapHardwareId)"
  then have "not_requested tapHardwareId d"
    by (cases v) (auto simp: not_requested_def)
  then have "\<And>a s. tap_step e tapHardwareId d a s = (Inr a, s)"
    by (rule not_requested_step)
  from enumerate_members_drop [of e tapHardwareId d, OF this]
  show "GetTapAdapters e (Inr (devInfo\<lparr>members := before @ d # after\<rparr>)) tapHardwareId st
       = GetTapAdapters e (Inr (devInfo\<lparr>members := before @ after\<rparr>)) tapHardwareId st"
    by (simp add: GetTapAdapters_members)
qed

lemma two_of_three:
  "GetTapAdapters test_env
     (Inr (test_devinfo [test_device TAP_HARDWARE_ID ''A'', test_device TAP_HARDWARE_ID ''C'']))
     TAP_HARDWARE_ID empty_state
   = (Inr [test_adapter ''A'' ''Mullvad-2'', test_adapter ''C'' ''Mullvad-1''], empty_state)"
  by (simp add: enumeration_defs reader_defs example_defs TAP_HARDWARE_ID_def compare_chars_eq_0)

theorem GetTapAdapters_filter_witness:
  "GetTapAdapters test_env
     (Inr (test_devinfo [test_device TAP_HARDWARE_ID ''A'',
                         test_device ''TAPMULLVAD0901'' ''B'',
                         test_device TAP_HARDWARE_ID ''C'']))
     TAP_HARDWARE_ID empty_state
   = (Inr [test_adapter ''A'' ''Mullvad-2'', test_adapter ''C'' ''Mullvad-1''], empty_state) \<and>
   GetTapAdapters test_env
     (Inr (test_devinfo [test_device TAP_HARDWARE_ID ''A'', absent_device,
                         test_device TAP_HARDWARE_ID ''C'']))
     TAP_HARDWARE_ID empty_state
   = (Inr [test_adapter ''A'' ''Mullvad-2'', test_adapter ''C'' ''Mullvad-1''], empty_state)"
proof -
  have c: "c_str TAP_HARDWARE_ID = TAP_HARDWARE_ID"
    by (simp add: c_str_def TAP_HARDWARE_ID_def)
  have m: "GetDeviceRegistryStringProperty (hardwareId_prop (test_device ''TAPMULLVAD0901'' ''B''))
             = Inr (Some ''TAPMULLVAD0901'')"
    by (simp add: reader_defs example_defs)
  have n: "GetDeviceRegistryStringProperty (hardwareId_prop absent_device) = Inr None"
    by (simp add: reader_defs example_defs absent_device_def)
  have d: "Some ''TAPMULLVAD0901'' \<noteq> Some TAP_HARDWARE_ID"
    by (simp add: TAP_HARDWARE_ID_def)
  note a = GetTapAdapters_filter [where d = "test_device ''TAPMULLVAD0901'' ''B''"
      and v = "Some ''TAPMULLVAD0901''" and tapHardwareId = TAP_HARDWARE_ID
      and e = test_env and devInfo = "test_devinfo []"
      and before = "[test_device TAP_HARDWARE_ID ''A'']"
      and after = "[test_device TAP_HARDWARE_ID ''C'']" and st = empty_state]
  note b = GetTapAdapters_filter [where d = absent_device
      and v = None and tapHardwareId = TAP_HARDWARE_ID
      and e = test_env and devInfo = "test_devinfo []"
      and before = "[test_device TAP_HARDWARE_ID ''A'']"
      and after = "[test_device TAP_HARDWARE_ID ''C'']" and st = empty_state]
  show ?thesis
    using a b m n d two_of_three by (simp add: c test_devinfo_def)
qed

text \<open>
  Claim C7. Whatever the requested hardware ID, the adapters that \<open>GetTapAdapters\<close>
  returns are in strictly ascending order of their identifying string; in particular no
  two of them have the same identity.
\<close>

theorem GetTapAdapters_distinct:
  "GetTapAdapters e classDevs tapHardwareId st = (Inr adapters, st') \<longrightarrow>
     sorted_wrt (\<lambda>a b. guid a < guid b) adapters \<and> distinct (map guid adapters)"
proof
  assume r: "GetTapAdapters e classDevs tapHardwareId st = (Inr adapters, st')"
  then obtain devInfo where "classDevs = Inr devInfo"
    by (auto simp: GetTapAdapters_def split: sum.splits)
  with r have "enumerate_members e tapHardwareId (end_error devInfo) (members devInfo) [] st
      = (Inr adapters, st')"
    by (simp add: GetTapAdapters_members)
  from enumerate_members_sorted [OF _ this] have s: "sorted_wrt adapter_less adapters"
    by simp
  from sorted_adapters_distinct [OF s] s
  show "sorted_wrt (\<lambda>a b. guid a < guid b) adapters \<and> distinct (map guid adapters)"
    by (simp add: adapter_less_def [abs_def])
qed

lemma same_identity_twice:
  "GetTapAdapters test_env
     (Inr (test_devinfo [test_device TAP_HARDWARE_ID ''A'', test_device TAP_HARDWARE_ID ''A'']))
     TAP_HARDWARE_ID empty_state
   = (Inr [test_adapter ''A'' ''Mullvad-2''], empty_state)"
  by (simp add: enumeration_defs reader_defs example_defs TAP_HARDWARE_ID_def compare_chars_eq_0)

theorem GetTapAdapters_distinct_witness:
  "GetTapAdapters test_env
     (Inr (test_devinfo [test_device TAP_HARDWARE_ID ''A'', test_device TAP_HARDWARE_ID ''A'']))
     TAP_HARDWARE_ID empty_state
   = (Inr [test_adapter ''A'' ''Mullvad-2''], empty_state) \<and>
   distinct (map guid [test_adapter ''A'' ''Mullvad-2'']) \<and>
   distinct (map guid [test_adapter ''A'' ''Mullvad-2'', test_adapter ''B'' ''Other''])"
  using GetTapAdapters_distinct [where e = test_env and tapHardwareId = TAP_HARDWARE_ID
          and st = empty_state and st' = empty_state
          and adapters = "[test_adapter ''A'' ''Mullvad-2'']"
          and classDevs = "Inr (test_devinfo [test_device TAP_HARDWARE_ID ''A'',
                                              test_device TAP_HARDWARE_ID ''A''])"]
        GetTapAdapters_distinct [where e = test_env and tapHardwareId = TAP_HARDWARE_ID
          and st = empty_state and st' = empty_state
          and adapters = "[test_adapter ''A'' ''Mullvad-2'', test_adapter ''B'' ''Other'']"
          and classDevs = "Inr (test_devinfo [test_device TAP_HARDWARE_ID ''B'',
                                              test_device TAP_HARDWARE_ID ''A''])"]
        same_identity_twice two_current_adapters
  by simp

lemma evaluate_arguments_values:
  "evaluate_arguments order n a i = Inr (x, y, z) \<longleftrightarrow> n = Inr x \<and> a = Inr y \<and> i = Inr z"
  by (cases order) (auto simp: in_sequence_def split: sum.splits)

lemma evaluate_arguments_exception:
  "evaluate_arguments order n a i = Inl ex \<Longrightarrow> n = Inl ex \<or> a = Inl ex \<or> i = Inl ex"
  by (cases order) (auto simp: in_sequence_def split: sum.splits)

lemma evaluate_arguments_all:
  "evaluate_arguments order (Inr x) (Inr y) (Inr z) = Inr (x, y, z)"
  by (simp add: evaluate_arguments_values)

lemma construct_adapter_fields:
  "construct_adapter e d = Inr r \<longleftrightarrow> fields_obtained e d r"
  by (cases r)
     (auto simp: construct_adapter_def fields_obtained_def evaluate_arguments_values
           evaluate_arguments_all split: sum.splits)

lemma construct_adapter_exception:
  assumes "construct_adapter e d = Inl ex"
  shows "GetNetCfgInstanceId d = Inl ex \<or>
         (\<exists>g. GetNetCfgInstanceId d = Inr g \<and>
            (GuidFromString e g = Inl ex \<or>
             (\<exists>guidObj. GuidFromString e g = Inr guidObj \<and>
                (GetDeviceStringProperty (driverDesc_prop d) = Inl ex \<or>
                 getConnectionName e guidObj = Inl ex \<or>
                 GetDeviceInstanceId d = Inl ex))))"
  using assms
  by (auto simp: construct_adapter_def split: sum.splits dest: evaluate_arguments_exception)

lemma requested_step_failed:
  assumes "GetDeviceRegistryStringProperty (hardwareId_prop d) = Inr (Some (c_str h))"
    and "construct_adapter e d = Inl ex"
  shows "tap_step e h d a st =
           (Inr a, st\<lparr>log := log st @
              [PluginLog (''Skipping TAP adapter due to exception caught while iterating: ''
                 @ what e ex)]\<rparr>)"
  using assms
  by (simp add: tap_step_def wcscmp_eq_0 c_str_idem plugin_log_def skip_message_def)

lemma tap_step_log:
  "tap_step e h d a st = (Inr a', st') \<Longrightarrow> log st' = log st @ skipped_log e h d"
  using registry_property_c_str [of "hardwareId_prop d"]
  by (auto simp: tap_step_def skipped_log_def wcscmp_eq_0 plugin_log_def skip_message_def
           split: sum.splits option.splits if_splits)

lemma enumerate_members_log:
  "enumerate_members e h err ds a st = (Inr a', st') \<Longrightarrow>
     log st' = log st @ concat (map (skipped_log e h) ds)"
proof (induction ds arbitrary: a st)
  case Nil
  then show ?case by (auto split: if_splits)
next
  case (Cons d ds)
  from Cons.prems obtain a1 st1 where
    s: "tap_step e h d a st = (Inr a1, st1)" and
    r: "enumerate_members e h err ds a1 st1 = (Inr a', st')"
    by (auto split: prod.splits sum.splits)
  from Cons.IH [OF r] tap_step_log [OF s] show ?case by simp
qed

text \<open>
  Claim C8. A record is built from a device exactly when all four fields (identity,
  description, alias, device instance id) were obtained, the parse of the identity
  string included; otherwise the build ends in the exception of one of the sub-queries
  that failed. When the build fails for a device with the requested hardware ID, the
  loop appends to the log the entry "Skipping TAP adapter due to exception caught while
  iterating: " followed by the text of that exception, leaves the set as it is and goes
  on with the next index; the set returned in the end (or the exception of a later
  device) is the one the enumeration gives without that device. When the enumeration
  returns, the log has gained exactly one such entry for every device with the requested
  hardware ID from which no record could be built, in the order of the devices, and
  every record of the returned set has all its four fields obtained from a device of the
  list.
\<close>

theorem GetTapAdapters_skips_failed:
  "(construct_adapter e d = Inr r \<longleftrightarrow> fields_obtained e d r) \<and>
   (construct_adapter e d = Inl ex \<longrightarrow>
      GetNetCfgInstanceId d = Inl ex \<or>
      (\<exists>g. GetNetCfgInstanceId d = Inr g \<and>
         (GuidFromString e g = Inl ex \<or>
          (\<exists>guidObj. GuidFromString e g = Inr guidObj \<and>
             (GetDeviceStringProperty (driverDesc_prop d) = Inl ex \<or>
              getConnectionName e guidObj = Inl ex \<or>
              GetDeviceInstanceId d = Inl ex))))) \<and>
   (SetupDiEnumDeviceInfo devInfo i = Inr d \<and>
    GetDeviceRegistryStringProperty (hardwareId_prop d) = Inr (Some (c_str tapHardwareId)) \<and>
    construct_adapter e d = Inl ex \<longrightarrow>
      GetTapAdapters_loop e tapHardwareId devInfo i adapters st =
        GetTapAdapters_loop e tapHardwareId devInfo (Suc i) adapters
          (st\<lparr>log := log st @
             [PluginLog (''Skipping TAP adapter due to exception caught while iterating: ''
                @ what e ex)]\<rparr>)) \<and>
   (GetDeviceRegistryStringProperty (hardwareId_prop d) = Inr (Some (c_str tapHardwareId)) \<and>
    construct_adapter e d = Inl ex \<longrightarrow>
      fst (GetTapAdapters e (Inr (devInfo\<lparr>members := before @ d # after\<rparr>)) tapHardwareId st)
        = fst (GetTapAdapters e (Inr (devInfo\<lparr>members := before @ after\<rparr>)) tapHardwareId st)) \<and>
   (GetTapAdapters e (Inr devInfo) tapHardwareId st = (Inr adapters, st') \<longrightarrow>
      log st' = log st @ concat (map (skipped_log e tapHardwareId) (members devInfo)) \<and>
      (r \<in> set adapters \<longrightarrow> (\<exists>d' \<in> set (members devInfo). fields_obtained e d' r)))"
proof (intro conjI impI)
  show "construct_adapter e d = Inr r \<longleftrightarrow> fields_obtained e d r"
    by (rule construct_adapter_fields)
next
  assume "construct_adapter e d = Inl ex"
  then show "GetNetCfgInstanceId d = Inl ex \<or>
      (\<exists>g. GetNetCfgInstanceId d = Inr g \<and>
         (GuidFromString e g = Inl ex \<or>
          (\<exists>guidObj. GuidFromString e g = Inr guidObj \<and>
             (GetDeviceStringProperty (driverDesc_prop d) = Inl ex \<or>
              getConnectionName e guidObj = Inl ex \<or>
              GetDeviceInstanceId d = Inl ex))))"
    by (rule construct_adapter_exception)
next
  assume h: "SetupDiEnumDeviceInfo devInfo i = Inr d \<and>
    GetDeviceRegistryStringProperty (hardwareId_prop d) = Inr (Some (c_str tapHardwareId)) \<and>
    construct_adapter e d = Inl ex"
  then show "GetTapAdapters_loop e tapHardwareId devInfo i adapters st =
        GetTapAdapters_loop e tapHardwareId devInfo (Suc i) adapters
          (st\<lparr>log := log st @
             [PluginLog (''Skipping TAP adapter due to exception caught while iterating: ''
                @ what e ex)]\<rparr>)"
    by (subst GetTapAdapters_loop.simps)
       (simp add: wcscmp_eq_0 c_str_idem plugin_log_def skip_message_def)
next
  assume h: "GetDeviceRegistryStringProperty (hardwareId_prop d)
      = Inr (Some (c_str tapHardwareId)) \<and> construct_adapter e d = Inl ex"
  then have "\<And>a s. \<exists>s'. tap_step e tapHardwareId d a s = (Inr a, s')"
    by (simp add: requested_step_failed)
  from enumerate_members_drop_fst [of e tapHardwareId d, OF this]
  show "fst (GetTapAdapters e (Inr (devInfo\<lparr>members := before @ d # after\<rparr>)) tapHardwareId st)
        = fst (GetTapAdapters e (Inr (devInfo\<lparr>members := before @ after\<rparr>)) tapHardwareId st)"
    by (simp add: GetTapAdapters_members)
next
  assume h: "GetTapAdapters e (Inr devInfo) tapHardwareId st = (Inr adapters, st')"
  then have en: "enumerate_members e tapHardwareId (end_error devInfo) (members devInfo) [] st
      = (Inr adapters, st')"
    by (simp add: GetTapAdapters_members)
  from enumerate_members_log [OF en]
  show "log st' = log st @ concat (map (skipped_log e tapHardwareId) (members devInfo))" .
  show "\<exists>d' \<in> set (members devInfo). fields_obtained e d' r" if "r \<in> set adapters"
    using enumerate_members_provenance [OF en that]
    by (auto simp: construct_adapter_fields)
qed

lemma only_well_formed:
  "GetTapAdapters test_env (Inr (test_devinfo [test_device TAP_HARDWARE_ID ''C'']))
     TAP_HARDWARE_ID empty_state = (Inr [test_adapter ''C'' ''Mullvad-1''], empty_state)"
  by (simp add: enumeration_defs reader_defs example_defs TAP_HARDWARE_ID_def compare_chars_eq_0)

lemma example_constructions:
  "construct_adapter test_env (test_device TAP_HARDWARE_ID ''E'')
     = Inl (LibraryError ''No connection'')"
  "construct_adapter test_env broken_device
     = Inl (WindowsError 5 ''SetupDiGetDeviceInstanceIdW() failed'')"
  "construct_adapter test_env (test_device TAP_HARDWARE_ID ''C'')
     = Inr (test_adapter ''C'' ''Mullvad-1'')"
  by (simp_all add: construct_adapter_def in_sequence_def reader_defs example_defs
      broken_device_def unreadable_query_def)

lemma example_what:
  "what test_env (LibraryError m) = m"
  "what test_env (WindowsError c m) = m"
  by (simp_all add: test_env_def)

lemma example_requested:
  "GetDeviceRegistryStringProperty (hardwareId_prop (test_device TAP_HARDWARE_ID g))
     = Inr (Some (c_str TAP_HARDWARE_ID))"
  "GetDeviceRegistryStringProperty (hardwareId_prop broken_device)
     = Inr (Some (c_str TAP_HARDWARE_ID))"
  by (simp_all add: reader_defs example_defs broken_device_def TAP_HARDWARE_ID_def)

theorem GetTapAdapters_skips_failed_witness:
  "fst (GetTapAdapters test_env
     (Inr (test_devinfo [test_device TAP_HARDWARE_ID ''E'', broken_device,
                         test_device TAP_HARDWARE_ID ''C'']))
     TAP_HARDWARE_ID empty_state) = Inr [test_adapter ''C'' ''Mullvad-1''] \<and>
   log (snd (GetTapAdapters test_env
     (Inr (test_devinfo [test_device TAP_HARDWARE_ID ''E'', broken_device,
                         test_device TAP_HARDWARE_ID ''C'']))
     TAP_HARDWARE_ID empty_state))
     = [PluginLog ''Skipping TAP adapter due to exception caught while iterating: No connection'',
        PluginLog (''Skipping TAP adapter due to exception caught while iterating: ''
          @ ''SetupDiGetDeviceInstanceIdW() failed'')] \<and>
   GetTapAdapters_loop test_env TAP_HARDWARE_ID
     (test_devinfo [test_device TAP_HARDWARE_ID ''E'', broken_device,
                    test_device TAP_HARDWARE_ID ''C'']) 0 [] empty_state
   = GetTapAdapters_loop test_env TAP_HARDWARE_ID
     (test_devinfo [test_device TAP_HARDWARE_ID ''E'', broken_device,
                    test_device TAP_HARDWARE_ID ''C'']) (Suc 0) []
     \<lparr>log = [PluginLog
         ''Skipping TAP adapter due to exception caught while iterating: No connection''],
      removed = []\<rparr> \<and>
   fields_obtained test_env (test_device TAP_HARDWARE_ID ''C'') (test_adapter ''C'' ''Mullvad-1'') \<and>
   GetDeviceInstanceId broken_device
     = Inl (WindowsError 5 ''SetupDiGetDeviceInstanceIdW() failed'')"
proof -
  let ?E = "test_device TAP_HARDWARE_ID ''E''"
  let ?C = "test_device TAP_HARDWARE_ID ''C''"
  let ?G = "GetTapAdapters test_env (Inr (test_devinfo [?E, broken_device, ?C]))
              TAP_HARDWARE_ID empty_state"
  note t = GetTapAdapters_skips_failed [where e = test_env and tapHardwareId = TAP_HARDWARE_ID
      and st = empty_state]
  from t [where d = ?E and ex = "LibraryError ''No connection''"
      and devInfo = "test_devinfo []" and before = "[]" and after = "[broken_device, ?C]"]
  have 1: "fst ?G = fst (GetTapAdapters test_env (Inr (test_devinfo [broken_device, ?C]))
              TAP_HARDWARE_ID empty_state)"
    by (simp add: example_constructions example_requested test_devinfo_def)
  from t [where d = broken_device
      and ex = "WindowsError 5 ''SetupDiGetDeviceInstanceIdW() failed''"
      and devInfo = "test_devinfo []" and before = "[]" and after = "[?C]"]
  have 2: "fst (GetTapAdapters test_env (Inr (test_devinfo [broken_device, ?C]))
              TAP_HARDWARE_ID empty_state)
           = fst (GetTapAdapters test_env (Inr (test_devinfo [?C])) TAP_HARDWARE_ID empty_state)"
    by (simp add: example_constructions example_requested test_devinfo_def)
  from 1 2 have f: "fst ?G = Inr [test_adapter ''C'' ''Mullvad-1'']"
    by (simp add: only_well_formed)
  then have g: "?G = (Inr [test_adapter ''C'' ''Mullvad-1''], snd ?G)"
    by (metis prod.collapse)
  from t [where devInfo = "test_devinfo [?E, broken_device, ?C]"
      and adapters = "[test_adapter ''C'' ''Mullvad-1'']" and st' = "snd ?G"] g
  have l: "log (snd ?G) = log empty_state @ concat (map (skipped_log test_env TAP_HARDWARE_ID)
              [?E, broken_device, ?C])"
    by (simp add: test_devinfo_def)
  have en: "SetupDiEnumDeviceInfo (test_devinfo [?E, broken_device, ?C]) 0 = Inr ?E"
    by (simp add: SetupDiEnumDeviceInfo_def test_devinfo_def)
  from t [where d = ?E and ex = "LibraryError ''No connection''" and i = 0
      and devInfo = "test_devinfo [?E, broken_device, ?C]" and adapters = "[]"]
  have s: "GetTapAdapters_loop test_env TAP_HARDWARE_ID
       (test_devinfo [?E, broken_device, ?C]) 0 [] empty_state
     = GetTapAdapters_loop test_env TAP_HARDWARE_ID
       (test_devinfo [?E, broken_device, ?C]) (Suc 0) []
       \<lparr>log = [PluginLog
           ''Skipping TAP adapter due to exception caught while iterating: No connection''],
        removed = []\<rparr>"
    by (simp add: en example_constructions example_requested example_what empty_state_def)
  from t [where d = ?C and r = "test_adapter ''C'' ''Mullvad-1''"]
  have o: "fields_obtained test_env ?C (test_adapter ''C'' ''Mullvad-1'')"
    by (simp add: example_constructions)
  from t [where d = broken_device and ex = "WindowsError 5 ''SetupDiGetDeviceInstanceIdW() failed''"]
  have b: "GetDeviceInstanceId broken_device
     = Inl (WindowsError 5 ''SetupDiGetDeviceInstanceIdW() failed'')"
    by (simp add: example_constructions)
       (simp add: reader_defs example_defs broken_device_def unreadable_query_def)
  show ?thesis
    using f l s o b
    by (simp add: skipped_log_def example_constructions example_requested example_what
        empty_state_def)
qed

subsection \<open>The exported operations\<close>

lemma IdentifyNewAdapter_without_context:
  "g_context p = None \<Longrightarrow>
     IdentifyNewAdapter e classDevs p =
       Returns (p\<lparr>stack := StackNsisStatus NsisStatus_GENERAL_ERROR
                  # StackString ''Initialize() function was not called or was not successful''
                  # stack p\<rparr>)"
  by (simp add: IdentifyNewAdapter_def pushint_def pushstring_def)

lemma RemoveOldMullvadTap_result:
  "RemoveOldMullvadTap e classDevs classDevs' p =
     (case DeleteOldMullvadAdapter e classDevs classDevs' (session p) of
        (Inr NO_REMAINING_TAP_ADAPTERS, st) \<Rightarrow>
          p\<lparr>stack := StackRemoveStatus SUCCESS_NO_REMAINING_TAP_ADAPTERS # StackString []
                 # stack p, session := st\<rparr>
      | (Inr SOME_REMAINING_TAP_ADAPTERS, st) \<Rightarrow>
          p\<lparr>stack := StackRemoveStatus SUCCESS_SOME_REMAINING_TAP_ADAPTERS # StackString []
                 # stack p, session := st\<rparr>
      | (Inl err, st) \<Rightarrow>
          p\<lparr>stack := StackRemoveStatus GENERAL_ERROR # StackString (what e err)
                 # StackString [] # stack p, session := st\<rparr>)"
  by (simp add: RemoveOldMullvadTap_def pushint_def pushstring_def Let_def
      split: prod.splits sum.splits DeletionResult.splits)

lemma RemoveOldMullvadTap_module:
  "g_context (RemoveOldMullvadTap e classDevs classDevs' p) = g_context p"
  "references (RemoveOldMullvadTap e classDevs classDevs' p) = references p"
  by (simp_all add: RemoveOldMullvadTap_result split: prod.splits sum.splits DeletionResult.splits)

lemma call_before_success:
  assumes "newly_loaded p" and "call_plugin e c p = Returns p'"
    and "\<not> (is_Initialize c \<and> reports_success p')"
  shows "newly_loaded p'"
proof (cases c)
  case (Call_Initialize n)
  show ?thesis
  proof (cases "n = 0")
    case True
    with assms Call_Initialize show ?thesis
      by (auto simp: newly_loaded_def Initialize_def PinDll_def FreeLibrary_def pushint_def
          pushstring_def)
  next
    case False
    with assms(1,2) Call_Initialize have "reports_success p'"
      by (auto simp: newly_loaded_def Initialize_def PinDll_def FreeLibrary_def pushint_def
          pushstring_def reports_success_def)
    with assms(3) Call_Initialize show ?thesis
      by (simp add: is_Initialize_def)
  qed
next
  case (Call_RemoveOldMullvadTap classDevs classDevs')
  with assms show ?thesis
    by (auto simp: newly_loaded_def FreeLibrary_def RemoveOldMullvadTap_module)
next
  case (Call_IdentifyNewAdapter classDevs)
  with assms show ?thesis
    by (auto simp: newly_loaded_def FreeLibrary_def IdentifyNewAdapter_without_context)
next
  case Call_Deinitialize
  with assms show ?thesis
    by (auto simp: newly_loaded_def FreeLibrary_def Deinitialize_def pushint_def pushstring_def)
qed

lemma calls_before_success_loaded:
  "newly_loaded p \<Longrightarrow> calls_before_success e cs p = Some p' \<Longrightarrow> newly_loaded p'"
proof (induction cs arbitrary: p)
  case Nil
  then show ?case by simp
next
  case (Cons c cs)
  from Cons.prems(2) obtain p1 where
    c: "call_plugin e c p = Returns p1" and
    n: "\<not> (is_Initialize c \<and> reports_success p1)" and
    r: "calls_before_success e cs p1 = Some p'"
    by (auto split: outcome.splits if_splits)
  from call_before_success [OF Cons.prems(1) c n] have "newly_loaded p1" .
  from Cons.IH [OF this r] show ?case .
qed

text \<open>
  Claim C10. Of the exported operations only \<open>IdentifyNewAdapter\<close> looks at
  \<open>g_context\<close>. Take a newly loaded module and any run of calls in which no
  \<open>Initialize\<close> has reported success: \<open>IdentifyNewAdapter\<close> then pushes the message
  "Initialize() function was not called or was not successful" and the general error,
  whatever the device list holds, and leaves log and devices alone; no enumeration takes
  place. \<open>RemoveOldMullvadTap\<close> on the contrary does all the work of
  \<open>DeleteOldMullvadAdapter\<close>, enumeration and removal, and reports its result, also
  when \<open>Initialize\<close> was never called.
\<close>

theorem IdentifyNewAdapter_guard:
  "newly_loaded p \<and> calls_before_success e calls p = Some p' \<longrightarrow>
     IdentifyNewAdapter e classDevs p' =
       Returns (p'\<lparr>stack := StackNsisStatus NsisStatus_GENERAL_ERROR
                   # StackString ''Initialize() function was not called or was not successful''
                   # stack p'\<rparr>) \<and>
     RemoveOldMullvadTap e classDevs classDevs' p' =
       (case DeleteOldMullvadAdapter e classDevs classDevs' (session p') of
          (Inr NO_REMAINING_TAP_ADAPTERS, st) \<Rightarrow>
            p'\<lparr>stack := StackRemoveStatus SUCCESS_NO_REMAINING_TAP_ADAPTERS # StackString []
                    # stack p', session := st\<rparr>
        | (Inr SOME_REMAINING_TAP_ADAPTERS, st) \<Rightarrow>
            p'\<lparr>stack := StackRemoveStatus SUCCESS_SOME_REMAINING_TAP_ADAPTERS # StackString []
                    # stack p', session := st\<rparr>
        | (Inl err, st) \<Rightarrow>
            p'\<lparr>stack := StackRemoveStatus GENERAL_ERROR # StackString (what e err)
                    # StackString [] # stack p', session := st\<rparr>)"
proof (intro impI conjI)
  assume h: "newly_loaded p \<and> calls_before_success e calls p = Some p'"
  then have "newly_loaded p'"
    by (auto intro: calls_before_success_loaded)
  then have "g_context p' = None"
    by (simp add: newly_loaded_def)
  then show "IdentifyNewAdapter e classDevs p' =
       Returns (p'\<lparr>stack := StackNsisStatus NsisStatus_GENERAL_ERROR
                   # StackString ''Initialize() function was not called or was not successful''
                   # stack p'\<rparr>)"
    by (rule IdentifyNewAdapter_without_context)
next
  show "RemoveOldMullvadTap e classDevs classDevs' p' =
       (case DeleteOldMullvadAdapter e classDevs classDevs' (session p') of
          (Inr NO_REMAINING_TAP_ADAPTERS, st) \<Rightarrow>
            p'\<lparr>stack := StackRemoveStatus SUCCESS_NO_REMAINING_TAP_ADAPTERS # StackString []
                    # stack p', session := st\<rparr>
        | (Inr SOME_REMAINING_TAP_ADAPTERS, st) \<Rightarrow>
            p'\<lparr>stack := StackRemoveStatus SUCCESS_SOME_REMAINING_TAP_ADAPTERS # StackString []
                    # stack p', session := st\<rparr>
        | (Inl err, st) \<Rightarrow>
            p'\<lparr>stack := StackRemoveStatus GENERAL_ERROR # StackString (what e err)
                    # StackString [] # stack p', session := st\<rparr>)"
    by (rule RemoveOldMullvadTap_result)
qed

lemma failed_Initialize:
  "calls_before_success test_env [Call_Initialize 0] fresh_plugin
     = Some \<lparr>g_context = None, references = 0,
             stack = [StackNsisStatus NsisStatus_GENERAL_ERROR,
                      StackString ''Failed to pin plugin module''],
             session = empty_state\<rparr>"
  by (simp add: Initialize_def PinDll_def FreeLibrary_def pushint_def pushstring_def
      fresh_plugin_def is_Initialize_def reports_success_def test_env_def)

lemma successful_Initialize:
  "calls_before_success test_env [Call_Initialize 260] fresh_plugin = None"
  by (simp add: Initialize_def PinDll_def FreeLibrary_def pushint_def pushstring_def
      fresh_plugin_def is_Initialize_def reports_success_def)

theorem IdentifyNewAdapter_guard_witness:
  "IdentifyNewAdapter test_env (Inr (test_devinfo [test_device TAP_HARDWARE_ID ''A'']))
     \<lparr>g_context = None, references = 0,
      stack = [StackNsisStatus NsisStatus_GENERAL_ERROR,
               StackString ''Failed to pin plugin module''],
      session = empty_state\<rparr>
   = Returns \<lparr>g_context = None, references = 0,
       stack = [StackNsisStatus NsisStatus_GENERAL_ERROR,
                StackString ''Initialize() function was not called or was not successful'',
                StackNsisStatus NsisStatus_GENERAL_ERROR,
                StackString ''Failed to pin plugin module''],
       session = empty_state\<rparr> \<and>
   RemoveOldMullvadTap test_env
     (Inr (test_devinfo [test_device DEPRECATED_TAP_HARDWARE_ID ''D'']))
     (Inr (test_devinfo [test_device DEPRECATED_TAP_HARDWARE_ID ''D''])) fresh_plugin
   = \<lparr>g_context = None, references = 0,
      stack = [StackRemoveStatus SUCCESS_NO_REMAINING_TAP_ADAPTERS, StackString []],
      session = \<lparr>log = [], removed = [test_device DEPRECATED_TAP_HARDWARE_ID ''D'']\<rparr>\<rparr>"
proof -
  have n: "newly_loaded fresh_plugin"
    by (simp add: newly_loaded_def fresh_plugin_def)
  have z: "calls_before_success test_env [] fresh_plugin = Some fresh_plugin"
    by simp
  note a = IdentifyNewAdapter_guard [where e = test_env and p = fresh_plugin
      and calls = "[Call_Initialize 0]"
      and classDevs = "Inr (test_devinfo [test_device TAP_HARDWARE_ID ''A''])"]
  note b = IdentifyNewAdapter_guard [where e = test_env and p = fresh_plugin
      and calls = "[]" and p' = fresh_plugin
      and classDevs = "Inr (test_devinfo [test_device DEPRECATED_TAP_HARDWARE_ID ''D''])"
      and classDevs' = "Inr (test_devinfo [test_device DEPRECATED_TAP_HARDWARE_ID ''D''])"]
  from a n failed_Initialize have 1:
    "IdentifyNewAdapter test_env (Inr (test_devinfo [test_device TAP_HARDWARE_ID ''A'']))
       \<lparr>g_context = None, references = 0,
        stack = [StackNsisStatus NsisStatus_GENERAL_ERROR,
                 StackString ''Failed to pin plugin module''],
        session = empty_state\<rparr>
     = Returns \<lparr>g_context = None, references = 0,
         stack = [StackNsisStatus NsisStatus_GENERAL_ERROR,
                  StackString ''Initialize() function was not called or was not successful'',
                  StackNsisStatus NsisStatus_GENERAL_ERROR,
                  StackString ''Failed to pin plugin module''],
         session = empty_state\<rparr>"
    by simp
  from b n z have 2:
    "RemoveOldMullvadTap test_env
       (Inr (test_devinfo [test_device DEPRECATED_TAP_HARDWARE_ID ''D'']))
       (Inr (test_devinfo [test_device DEPRECATED_TAP_HARDWARE_ID ''D''])) fresh_plugin
     = \<lparr>g_context = None, references = 0,
        stack = [StackRemoveStatus SUCCESS_NO_REMAINING_TAP_ADAPTERS, StackString []],
        session = \<lparr>log = [], removed = [test_device DEPRECATED_TAP_HARDWARE_ID ''D'']\<rparr>\<rparr>"
    by (simp add: removal_alone fresh_plugin_def)
  from 1 2 show ?thesis by simp
qed

end
